theory Spec2Isabelle
  imports Complex_Main "HOL-Library.Multiset" "HOL-Library.Char_ord" "HOL-Library.List_Lexorder"
begin

section \<open>Python values\<close>

text \<open>
  Both scrapers work on values decoded from JSON: \<open>None\<close>, booleans, integers,
  strings, lists and dictionaries with string keys. A dictionary is an association list
  in the order of its keys, each key bound once, read with \<open>map_of\<close>. Fractional JSON
  numbers are not represented; no function below inspects a number.
\<close>

datatype val =
    VNone
  | VBool bool
  | VInt int
  | VStr string
  | VList "val list"
  | VDict "(string \<times> val) list"

type_synonym dict = "(string \<times> val) list"

text \<open>\<open>d.get(k)\<close> on a dictionary: \<open>None\<close> when the key is absent.\<close>

definition get :: "dict \<Rightarrow> string \<Rightarrow> val" where
  "get d k = (case map_of d k of None \<Rightarrow> VNone | Some v \<Rightarrow> v)"

text \<open>The exceptions the scrapers can meet while walking decoded data.\<close>

datatype py_error = KeyError | IndexError | TypeError | AttributeError

text \<open>A subscript of the source is an integer literal or a string literal.\<close>

datatype key = Idx int | Key string

text \<open>Python's truth value, as tested by \<open>if x\<close> and \<open>if not x\<close>.\<close>

fun truthy :: "val \<Rightarrow> bool" where
  "truthy VNone = False"
| "truthy (VBool b) = b"
| "truthy (VInt n) = (n \<noteq> 0)"
| "truthy (VStr s) = (s \<noteq> [])"
| "truthy (VList xs) = (xs \<noteq> [])"
| "truthy (VDict kvs) = (kvs \<noteq> [])"

text \<open>\<open>len(x)\<close>: defined on strings, lists and dictionaries, a TypeError elsewhere.\<close>

fun len :: "val \<Rightarrow> py_error + int" where
  "len (VStr s) = Inr (int (length s))"
| "len (VList xs) = Inr (int (length xs))"
| "len (VDict kvs) = Inr (int (length kvs))"
| "len _ = Inl TypeError"

text \<open>
  Indexing a sequence: a negative index counts from the end, an index outside
  \<open>-n \<le> i < n\<close> raises IndexError.
\<close>

definition seq_index :: "'a list \<Rightarrow> int \<Rightarrow> py_error + 'a" where
  "seq_index xs i =
     (if 0 \<le> i \<and> i < int (length xs) then Inr (xs ! nat i)
      else if - int (length xs) \<le> i \<and> i < 0 then Inr (xs ! nat (int (length xs) + i))
      else Inl IndexError)"

text \<open>
  \<open>x[k]\<close>. A list or a string takes an integer and raises TypeError on a string
  subscript; a dictionary looks the key up and raises KeyError when it is absent (an
  integer is never a key of a decoded JSON object); \<open>None\<close>, booleans and integers
  are not subscriptable.
\<close>

fun subscript :: "val \<Rightarrow> key \<Rightarrow> py_error + val" where
  "subscript (VList xs) (Idx i) = seq_index xs i"
| "subscript (VList xs) (Key k) = Inl TypeError"
| "subscript (VStr s) (Idx i) = map_sum id (\<lambda>c. VStr [c]) (seq_index s i)"
| "subscript (VStr s) (Key k) = Inl TypeError"
| "subscript (VDict kvs) (Key k) = (case map_of kvs k of None \<Rightarrow> Inl KeyError | Some v \<Rightarrow> Inr v)"
| "subscript (VDict kvs) (Idx i) = Inl KeyError"
| "subscript _ _ = Inl TypeError"

section \<open>Library functions taken as parameters\<close>

text \<open>
  The scrapers call library code whose results the model takes as given:
  \<^item> \<open>str\<close>: Python's \<open>str()\<close> on a decoded value, as an f-string applies it;
  \<^item> \<open>dumps\<close>: \<open>json.dumps(\<cdot>, ensure_ascii=False)\<close>;
  \<^item> \<open>script_texts\<close>: the texts of the \<open>script\<close> elements of an HTML document, in
    document order (\<open>BeautifulSoup(\<cdot>, "html.parser").find_all("script")\<close> and
    \<open>get_text()\<close>);
  \<^item> \<open>literal_eval\<close>: \<open>ast.literal_eval\<close> on the text of a string literal, \<open>None\<close>
    when it raises or does not yield a string;
  \<^item> \<open>json_loads\<close>: \<open>json.loads\<close>, \<open>None\<close> when it raises.
\<close>

record lib =
  str :: "val \<Rightarrow> string"
  dumps :: "val \<Rightarrow> string"
  script_texts :: "string \<Rightarrow> string list"
  literal_eval :: "string \<Rightarrow> string option"
  json_loads :: "string \<Rightarrow> val option"

text \<open>\<open>str(n)\<close> for an integer: its decimal digits, with a minus sign when negative.\<close>

fun str_nat :: "nat \<Rightarrow> string" where
  "str_nat n = (if n < 10 then [''0123456789'' ! n] else str_nat (n div 10) @ [''0123456789'' ! (n mod 10)])"

declare str_nat.simps [simp del]

definition str_int :: "int \<Rightarrow> string" where
  "str_int i = (if i < 0 then ''-'' @ str_nat (nat (- i)) else str_nat (nat i))"

section \<open>Pipeline B: \<open>scraper_gq.py\<close>\<close>

subsection \<open>\<open>safe_get\<close>\<close>

text \<open>
  \<^verbatim>\<open>return lst[index] if -len(lst) <= index < len(lst) else default\<close>
  (the parameter \<open>default\<close> is \<open>dflt\<close> here).
\<close>

definition safe_get :: "val \<Rightarrow> int \<Rightarrow> val \<Rightarrow> py_error + val" where
  "safe_get lst index dflt =
     (case len lst of
        Inl e \<Rightarrow> Inl e
      | Inr n \<Rightarrow> if - n \<le> index \<and> index < n then subscript lst (Idx index) else Inr dflt)"

subsection \<open>The network, as the scraper sees it\<close>

text \<open>
  \<open>session.get(url, timeout=...)\<close> followed by \<open>raise_for_status()\<close> either yields the
  response text or raises: a \<open>ConnectionError\<close>, or another \<open>RequestException\<close> (an
  HTTP error status, a read timeout). The run is sequential, so the network is a function
  of the number of requests sent before and of the URL. The world records the URLs
  requested and the seconds the retry loops slept, oldest first. (The randomized pause
  of \<open>main\<close> before each unit is not recorded.)
\<close>

datatype req_error = ConnectionError | RequestException

type_synonym net = "nat \<Rightarrow> string \<Rightarrow> req_error + string"

record world =
  sent :: "string list"
  slept :: "nat list"

definition URL_BASE :: string where
  "URL_BASE = ''https://gotquestions.online''"

definition RETRIES :: nat where
  "RETRIES = 3"

definition session_get :: "net \<Rightarrow> string \<Rightarrow> world \<Rightarrow> (req_error + string) \<times> world" where
  "session_get net url w = (net (length (sent w)) url, w\<lparr>sent := sent w @ [url]\<rparr>)"

definition sleep :: "nat \<Rightarrow> world \<Rightarrow> world" where
  "sleep seconds w = w\<lparr>slept := slept w @ [seconds]\<rparr>"

subsection \<open>The retry loop\<close>

text \<open>
  Both fetchers open with the same loop (lines 61-83 and 106-128):
  \<^verbatim>\<open>
  response = None
  for attempt in range(RETRIES):
      try:
          response = session.get(url, timeout=REQUEST_TIMEOUT)
          response.raise_for_status()
          break
      except requests.exceptions.ConnectionError as e:
          if attempt < RETRIES - 1:
              delay = 2 ** (attempt + 1)
              time.sleep(delay)
          else:
              return None
      except requests.RequestException as e:
          return None
  \<close>
  The loop ends in one of three ways: the function returns \<open>None\<close> (\<open>GaveUp\<close>), the
  loop breaks with a response, or \<open>range(RETRIES)\<close> runs out with \<open>response\<close> still
  \<open>None\<close>.
\<close>

datatype fetched = GaveUp | Response string | Exhausted

fun retry_loop :: "net \<Rightarrow> string \<Rightarrow> nat list \<Rightarrow> world \<Rightarrow> fetched \<times> world" where
  "retry_loop net url [] w = (Exhausted, w)"
| "retry_loop net url (attempt # rest) w =
     (case session_get net url w of
        (Inr response, w') \<Rightarrow> (Response response, w')
      | (Inl ConnectionError, w') \<Rightarrow>
          if attempt < RETRIES - 1
          then retry_loop net url rest (sleep (2 ^ (attempt + 1)) w')
          else (GaveUp, w')
      | (Inl RequestException, w') \<Rightarrow> (GaveUp, w'))"

subsection \<open>\<open>extract_json_from_script\<close>\<close>

text \<open>
  \<open>s.find(c)\<close> and \<open>s.rfind(c)\<close> for a one-character needle: the index of the first
  and of the last occurrence, \<open>-1\<close> when there is none.
\<close>

fun str_find :: "string \<Rightarrow> char \<Rightarrow> int" where
  "str_find [] c = - 1"
| "str_find (x # xs) c = (if x = c then 0 else (let i = str_find xs c in if i < 0 then - 1 else i + 1))"

fun str_rfind :: "string \<Rightarrow> char \<Rightarrow> int" where
  "str_rfind [] c = - 1"
| "str_rfind (x # xs) c =
     (let i = str_rfind xs c in if 0 \<le> i then i + 1 else if x = c then 0 else - 1)"

text \<open>\<open>s[a:b]\<close>: a negative bound counts from the end, and both are clipped to the string.\<close>

definition py_slice :: "'a list \<Rightarrow> int \<Rightarrow> int \<Rightarrow> 'a list" where
  "py_slice xs a b =
     (let n = int (length xs);
          lo = (if a < 0 then max (a + n) 0 else min a n);
          hi = (if b < 0 then max (b + n) 0 else min b n)
      in take (nat (hi - lo)) (drop (nat lo) xs))"

definition lstrip :: "string \<Rightarrow> string \<Rightarrow> string" where
  "lstrip s chars = dropWhile (\<lambda>c. c \<in> set chars) s"

definition rstrip :: "string \<Rightarrow> string \<Rightarrow> string" where
  "rstrip s chars = rev (dropWhile (\<lambda>c. c \<in> set chars) (rev s))"

text \<open>
  \<open>max(scripts, key=lambda x: len(x.get_text()), default=None)\<close>: the first script of
  greatest text length, \<open>None\<close> when there is no script.
\<close>

fun longest :: "string list \<Rightarrow> string option" where
  "longest [] = None"
| "longest (x # xs) =
     (case longest xs of
        None \<Rightarrow> Some x
      | Some m \<Rightarrow> if length m > length x then Some m else Some x)"

text \<open>
  \<^verbatim>\<open>
  try:
      scripts = soup.find_all("script")
      data = max(scripts, key=lambda x: len(x.get_text()), default=None)
      if not data:
          return None
      data = data.get_text()
      start_index = data.find('"') + 1
      end_index = data.rfind('"')
      data_string_with_prefix = data[start_index:end_index]
      json_string = data_string_with_prefix.lstrip("1234567890:")
      json_string = json_string.rstrip("\\n")
      unescaped_string = ast.literal_eval(f'"{json_string}"')
      return json.loads(unescaped_string)
  except (json.JSONDecodeError, SyntaxError) as e:
      return None
  except Exception as e:
      return None
  \<close>
  The soup is given by the texts of its scripts. A tag is always true, so \<open>not data\<close>
  holds only when there is no script. Every exception ends in \<open>None\<close>.
\<close>

definition extract_json_from_script :: "lib \<Rightarrow> string list \<Rightarrow> val option" where
  "extract_json_from_script L scripts =
     (case longest scripts of
        None \<Rightarrow> None
      | Some data \<Rightarrow>
          (let start_index = str_find data (CHR 0x22) + 1;
               end_index = str_rfind data (CHR 0x22);
               data_string_with_prefix = py_slice data start_index end_index;
               json_string = lstrip data_string_with_prefix ''1234567890:'';
               json_string = rstrip json_string [CHR 0x5C, CHR ''n'']
           in case literal_eval L ([CHR 0x22] @ json_string @ [CHR 0x22]) of
                None \<Rightarrow> None
              | Some unescaped_string \<Rightarrow> json_loads L unescaped_string))"

subsection \<open>Walking the decoded data\<close>

text \<open>Statements in sequence: the first one that raises ends the block.\<close>

definition and_then :: "py_error + 'a \<Rightarrow> ('a \<Rightarrow> py_error + 'b) \<Rightarrow> py_error + 'b" where
  "and_then r f = (case r of Inl e \<Rightarrow> Inl e | Inr x \<Rightarrow> f x)"

text \<open>A comprehension or loop body applied to the elements in order.\<close>

fun for_each :: "('a \<Rightarrow> py_error + 'b) \<Rightarrow> 'a list \<Rightarrow> py_error + 'b list" where
  "for_each f [] = Inr []"
| "for_each f (x # xs) = and_then (f x) (\<lambda>y. and_then (for_each f xs) (\<lambda>ys. Inr (y # ys)))"

text \<open>\<open>x[k1][k2]...\<close>, subscripts applied from the left.\<close>

fun path :: "val \<Rightarrow> key list \<Rightarrow> py_error + val" where
  "path v [] = Inr v"
| "path v (k # ks) = and_then (subscript v k) (\<lambda>u. path u ks)"

text \<open>
  \<open>for x in v\<close>: a list yields its elements, a string its characters, a dictionary its
  keys; anything else is not iterable.
\<close>

fun iterate :: "val \<Rightarrow> py_error + val list" where
  "iterate (VList xs) = Inr xs"
| "iterate (VStr s) = Inr (map (\<lambda>c. VStr [c]) s)"
| "iterate (VDict kvs) = Inr (map (\<lambda>kv. VStr (fst kv)) kvs)"
| "iterate _ = Inl TypeError"

text \<open>\<open>v.get(k, dflt)\<close>: only a dictionary has the method.\<close>

fun dict_get :: "val \<Rightarrow> string \<Rightarrow> val \<Rightarrow> py_error + val" where
  "dict_get (VDict kvs) k dflt = (case map_of kvs k of None \<Rightarrow> Inr dflt | Some v \<Rightarrow> Inr v)"
| "dict_get _ k dflt = Inl AttributeError"

text \<open>\<open>except (KeyError, IndexError): return None\<close>; any other exception propagates.\<close>

definition except_KeyError_IndexError :: "py_error + 'a option \<Rightarrow> py_error + 'a option" where
  "except_KeyError_IndexError r =
     (case r of
        Inl e \<Rightarrow> if e = KeyError \<or> e = IndexError then Inr None else Inl e
      | Inr x \<Rightarrow> Inr x)"

subsection \<open>\<open>fetch_tournament_ids_from_page\<close>\<close>

text \<open>
  The \<open>try\<close> block of lines 84-93, on the text of the response:
  \<^verbatim>\<open>
  soup = BeautifulSoup(response.text, "html.parser")
  parsed_data = extract_json_from_script(soup)
  if not parsed_data:
      return None
  pack_object = parsed_data[3]["children"][3]["packs"]
  ids = [pack["id"] for pack in pack_object]
  return ids
  \<close>
\<close>

definition tournament_ids :: "lib \<Rightarrow> string \<Rightarrow> py_error + val list option" where
  "tournament_ids L text =
     (case extract_json_from_script L (script_texts L text) of
        None \<Rightarrow> Inr None
      | Some parsed_data \<Rightarrow>
          if \<not> truthy parsed_data then Inr None
          else and_then (path parsed_data [Idx 3, Key ''children'', Idx 3, Key ''packs'']) (\<lambda>pack_object.
               and_then (iterate pack_object) (\<lambda>packs.
               and_then (for_each (\<lambda>pack. subscript pack (Key ''id'')) packs) (\<lambda>ids.
               Inr (Some ids)))))"

text \<open>
  The whole function: the retry loop on \<open>f"{URL_BASE}/?page={page_num}"\<close>, then the
  \<open>try\<close> block under its handler. When the loop runs out with \<open>response\<close> still
  \<open>None\<close>, \<open>response.text\<close> raises AttributeError.
\<close>

definition fetch_tournament_ids_from_page ::
  "lib \<Rightarrow> net \<Rightarrow> int \<Rightarrow> world \<Rightarrow> (py_error + val list option) \<times> world" where
  "fetch_tournament_ids_from_page L net page_num w =
     (case retry_loop net (URL_BASE @ ''/?page='' @ str_int page_num) [0..<RETRIES] w of
        (GaveUp, w') \<Rightarrow> (Inr None, w')
      | (Exhausted, w') \<Rightarrow> (Inl AttributeError, w')
      | (Response text, w') \<Rightarrow> (except_KeyError_IndexError (tournament_ids L text), w'))"

subsection \<open>\<open>fetch_questions_from_pack\<close>\<close>

text \<open>
  One question of a tour (lines 142-157). Every \<open>q.get\<close> needs \<open>q\<close> to be a
  dictionary; the author is
  \<^verbatim>\<open>safe_get(q.get("authors", []), 0, default={"name": None}).get("name")\<close>.
\<close>

fun processed_data :: "val \<Rightarrow> py_error + dict" where
  "processed_data (VDict q) =
     and_then (safe_get (case map_of q ''authors'' of None \<Rightarrow> VList [] | Some v \<Rightarrow> v) 0
             (VDict [(''name'', VNone)])) (\<lambda>first_author.
     and_then (dict_get first_author ''name'' VNone) (\<lambda>author.
     Inr [(''id'', get q ''id''),
          (''number'', get q ''number''),
          (''text'', get q ''text''),
          (''razdatkaText'', get q ''razdatkaText''),
          (''razdatkaPic'', get q ''razdatkaPic''),
          (''answer'', get q ''answer''),
          (''zachet'', get q ''zachet''),
          (''comment'', get q ''comment''),
          (''source'', get q ''source''),
          (''author'', author),
          (''title'', get q ''packTitle''),
          (''date'', get q ''endDate'')]))"
| "processed_data _ = Inl AttributeError"

text \<open>
  The \<open>try\<close> block of lines 131-163; the data frame is the list of its rows.
  \<^verbatim>\<open>
  pack_object = parsed_data[3]["children"][3]["pack"]
  questions_list = []
  for tour in pack_object.get("tours", []):
      for q in tour.get("questions", []):
          questions_list.append(processed_data)
  if not questions_list:
      return None
  return pd.DataFrame(questions_list)
  \<close>
\<close>

definition tour_questions :: "val \<Rightarrow> py_error + dict list" where
  "tour_questions tour =
     and_then (dict_get tour ''questions'' (VList [])) (\<lambda>questions.
     and_then (iterate questions) (\<lambda>qs. for_each processed_data qs))"

definition pack_questions :: "lib \<Rightarrow> string \<Rightarrow> py_error + dict list option" where
  "pack_questions L text =
     (case extract_json_from_script L (script_texts L text) of
        None \<Rightarrow> Inr None
      | Some parsed_data \<Rightarrow>
          if \<not> truthy parsed_data then Inr None
          else and_then (path parsed_data [Idx 3, Key ''children'', Idx 3, Key ''pack'']) (\<lambda>pack_object.
               and_then (dict_get pack_object ''tours'' (VList [])) (\<lambda>tours.
               and_then (iterate tours) (\<lambda>ts.
               and_then (for_each tour_questions ts) (\<lambda>per_tour.
               let questions_list = concat per_tour
               in if questions_list = [] then Inr None else Inr (Some questions_list))))))"

definition fetch_questions_from_pack ::
  "lib \<Rightarrow> net \<Rightarrow> val \<Rightarrow> world \<Rightarrow> (py_error + dict list option) \<times> world" where
  "fetch_questions_from_pack L net pack_id w =
     (case retry_loop net (URL_BASE @ ''/pack/'' @ str L pack_id) [0..<RETRIES] w of
        (GaveUp, w') \<Rightarrow> (Inr None, w')
      | (Exhausted, w') \<Rightarrow> (Inl AttributeError, w')
      | (Response text, w') \<Rightarrow> (except_KeyError_IndexError (pack_questions L text), w'))"

subsection \<open>\<open>main\<close> of \<open>scraper_gq.py\<close>\<close>

text \<open>
  \<^verbatim>\<open>
  for page in range(1, args.pages + 1):
      ids = fetch_tournament_ids_from_page(session, page)
      if ids:
          all_tournament_ids.extend(ids)
  \<close>
  No handler surrounds the call: an exception leaving the fetcher ends the run.
\<close>

fun collect_ids :: "lib \<Rightarrow> net \<Rightarrow> int list \<Rightarrow> val list \<Rightarrow> world \<Rightarrow> (py_error + val list) \<times> world" where
  "collect_ids L net [] all_tournament_ids w = (Inr all_tournament_ids, w)"
| "collect_ids L net (page # pages) all_tournament_ids w =
     (case fetch_tournament_ids_from_page L net page w of
        (Inl e, w') \<Rightarrow> (Inl e, w')
      | (Inr None, w') \<Rightarrow> collect_ids L net pages all_tournament_ids w'
      | (Inr (Some ids), w') \<Rightarrow> collect_ids L net pages (all_tournament_ids @ ids) w')"

text \<open>
  \<^verbatim>\<open>
  for pack_id in all_tournament_ids:
      df_pack = fetch_questions_from_pack(session, pack_id)
      if df_pack is not None and not df_pack.empty:
          all_dataframes.append(df_pack)
  \<close>
\<close>

fun collect_packs ::
  "lib \<Rightarrow> net \<Rightarrow> val list \<Rightarrow> dict list list \<Rightarrow> world
   \<Rightarrow> (py_error + dict list list) \<times> world" where
  "collect_packs L net [] all_dataframes w = (Inr all_dataframes, w)"
| "collect_packs L net (pack_id # pack_ids) all_dataframes w =
     (case fetch_questions_from_pack L net pack_id w of
        (Inl e, w') \<Rightarrow> (Inl e, w')
      | (Inr None, w') \<Rightarrow> collect_packs L net pack_ids all_dataframes w'
      | (Inr (Some df_pack), w') \<Rightarrow>
          collect_packs L net pack_ids
            (if df_pack \<noteq> [] then all_dataframes @ [df_pack] else all_dataframes) w')"

text \<open>
  The run: \<open>Inl e\<close> when an exception ends it, \<open>Inr None\<close> when it returns before
  writing, \<open>Inr (Some final_df)\<close> with the table handed to \<open>to_parquet\<close>.
\<close>

definition main_gq ::
  "lib \<Rightarrow> net \<Rightarrow> int \<Rightarrow> world \<Rightarrow> (py_error + dict list option) \<times> world" where
  "main_gq L net pages w =
     (case collect_ids L net [1..pages] [] w of
        (Inl e, w') \<Rightarrow> (Inl e, w')
      | (Inr all_tournament_ids, w') \<Rightarrow>
          if all_tournament_ids = [] then (Inr None, w')
          else (case collect_packs L net all_tournament_ids [] w' of
                  (Inl e, w'') \<Rightarrow> (Inl e, w'')
                | (Inr all_dataframes, w'') \<Rightarrow>
                    if all_dataframes = [] then (Inr None, w'')
                    else (Inr (Some (concat all_dataframes)), w'')))"

section \<open>Pipeline A: \<open>scraper_db.py\<close>\<close>

subsection \<open>The API, as the scraper sees it\<close>

text \<open>
  Typing. A decoded listing is a dictionary; its \<open>"hydra:member"\<close> entry, when present,
  is a list of dictionaries (the packages, tours or questions of a Hydra collection).
  The payload keeps that entry alone: \<open>None\<close> when the key is absent, as in an empty
  dictionary.

  The answer to a URL does not change during a run, so the worker threads of the detail
  phase do not influence each other's results. \<open>session.get\<close>, \<open>raise_for_status\<close>
  and \<open>response.json()\<close> together yield a payload, raise a \<open>RequestException\<close>
  (connection errors included) or raise a \<open>JSONDecodeError\<close>.
\<close>

record payload =
  hydra_member :: "dict list option"

datatype fetch_error = Request req_error | JSONDecodeError

type_synonym session = "string \<Rightarrow> fetch_error + payload"

datatype event = Sleep real | Get string

definition BASE_URL :: string where
  "BASE_URL = ''http://www.db.chgk.info''"

subsection \<open>\<open>fetch_data\<close>\<close>

text \<open>
  \<^verbatim>\<open>
  try:
      time.sleep(delay)
      response = session.get(url)
      response.raise_for_status()
      return response.json()
  except requests.exceptions.RequestException as e:
      logging.error(...)
  except json.JSONDecodeError as e:
      logging.error(...)
  return None
  \<close>
  The result comes with the events of the call: one sleep, one request. (A negative
  delay, on which \<open>time.sleep\<close> raises, is outside the model.)
\<close>

definition fetch_data :: "session \<Rightarrow> string \<Rightarrow> real \<Rightarrow> payload option \<times> event list" where
  "fetch_data session url delay =
     (case session url of
        Inr response_json \<Rightarrow> (Some response_json, [Sleep delay, Get url])
      | Inl (Request e) \<Rightarrow> (None, [Sleep delay, Get url])
      | Inl JSONDecodeError \<Rightarrow> (None, [Sleep delay, Get url]))"

text \<open>
  The command line: \<open>--output\<close> (the field \<open>output_path\<close>), \<open>--limit\<close>, \<open>--delay\<close>,
  \<open>--workers\<close>.
\<close>

record args =
  output_path :: string
  limit :: "int option"
  delay :: real
  workers :: int

subsection \<open>\<open>process_tour\<close> and \<open>process_package\<close>\<close>

text \<open>The flat record of one question (lines 79-99), a dictionary as in the source.\<close>

definition flat_record :: "lib \<Rightarrow> dict \<Rightarrow> dict \<Rightarrow> val \<Rightarrow> dict \<Rightarrow> dict" where
  "flat_record L package_info tour_info tour_id question_info =
     [(''package_id'', get package_info ''id''),
      (''package_title'', get package_info ''title''),
      (''package_played_at'', get package_info ''playedAt''),
      (''package_editors'', VStr (dumps L (get package_info ''editors''))),
      (''package_info'', get package_info ''info''),
      (''tour_id'', tour_id),
      (''tour_title'', get tour_info ''title''),
      (''tour_number'', get tour_info ''number''),
      (''question_id'', get question_info ''id''),
      (''question_number'', get question_info ''number''),
      (''question_type'', get question_info ''type''),
      (''question_text'', get question_info ''question''),
      (''answer'', get question_info ''answer''),
      (''pass_criteria'', get question_info ''passCriteria''),
      (''authors'', VStr (dumps L (get question_info ''authors''))),
      (''sources'', VStr (dumps L (get question_info ''sources''))),
      (''comments'', get question_info ''comments'')]"

text \<open>
  \<^verbatim>\<open>
  tour_id = tour_info.get("id")
  if not tour_id:
      return []
  questions_url = f"{BASE_URL}/tours/{tour_id}/questions"
  questions_data = fetch_data(session, questions_url, args.delay)
  if questions_data and "hydra:member" in questions_data:
      for question_info in questions_data["hydra:member"]:
          tour_questions.append(flat_record)
  return tour_questions
  \<close>
\<close>

definition process_tour :: "lib \<Rightarrow> dict \<Rightarrow> dict \<Rightarrow> session \<Rightarrow> args \<Rightarrow> dict list" where
  "process_tour L tour_info package_info session args =
     (let tour_id = get tour_info ''id''
      in if \<not> truthy tour_id then []
         else
           (let questions_url = BASE_URL @ ''/tours/'' @ str L tour_id @ ''/questions'';
                questions_data = fst (fetch_data session questions_url (delay args))
            in case questions_data of
                 None \<Rightarrow> []
               | Some data \<Rightarrow>
                   (case hydra_member data of
                      None \<Rightarrow> []
                    | Some member \<Rightarrow> map (flat_record L package_info tour_info tour_id) member)))"

text \<open>
  \<^verbatim>\<open>
  package_id = package_info.get("id")
  if not package_id:
      return []
  tours_url = f"{BASE_URL}/packages/{package_id}/tours"
  tours_data = fetch_data(session, tours_url, args.delay)
  if tours_data and "hydra:member" in tours_data:
      for tour_info in tours_data["hydra:member"]:
          package_questions.extend(process_tour(tour_info, package_info, session, args))
  return package_questions
  \<close>
\<close>

definition process_package :: "lib \<Rightarrow> dict \<Rightarrow> session \<Rightarrow> args \<Rightarrow> dict list" where
  "process_package L package_info session args =
     (let package_id = get package_info ''id''
      in if \<not> truthy package_id then []
         else
           (let tours_url = BASE_URL @ ''/packages/'' @ str L package_id @ ''/tours'';
                tours_data = fst (fetch_data session tours_url (delay args))
            in case tours_data of
                 None \<Rightarrow> []
               | Some data \<Rightarrow>
                   (case hydra_member data of
                      None \<Rightarrow> []
                    | Some member \<Rightarrow>
                        concat (map (\<lambda>tour_info. process_tour L tour_info package_info session args)
                                  member))))"

subsection \<open>The listing phase\<close>

text \<open>\<open>if last_played_at\<close>: the cursor is set and not the empty string.\<close>

definition cursor_set :: "string option \<Rightarrow> bool" where
  "cursor_set last_played_at = (case last_played_at of None \<Rightarrow> False | Some s \<Rightarrow> s \<noteq> [])"

text \<open>
  \<^verbatim>\<open>
  played_at_filter = f"&playedAt[before]={last_played_at}" if last_played_at else ""
  packages_url = f"{BASE_URL}/packages?page={current_page}&order[playedAt]=desc{played_at_filter}"
  \<close>
\<close>

definition packages_url :: "string option \<Rightarrow> int \<Rightarrow> string" where
  "packages_url last_played_at current_page =
     (let played_at_filter =
            (if cursor_set last_played_at then ''&playedAt[before]='' @ the last_played_at else [])
      in BASE_URL @ ''/packages?page='' @ str_int current_page @ ''&order[playedAt]=desc''
           @ played_at_filter)"

text \<open>\<open>args.limit is not None and len(packages_to_process) >= args.limit\<close>\<close>

definition limit_reached :: "args \<Rightarrow> dict list \<Rightarrow> bool" where
  "limit_reached args packages_to_process =
     (case limit args of None \<Rightarrow> False | Some l \<Rightarrow> int (length packages_to_process) \<ge> l)"

text \<open>
  The loop of lines 161-185. Nothing bounds the number of pages, so the loop is a
  partial function: \<open>None\<close> stands for a run that never leaves it. The result is the
  list of collected packages and the trace of the loop's sleeps and requests.
  \<^verbatim>\<open>
  while True:
      if args.limit is not None and len(packages_to_process) >= args.limit:
          break
      packages_data = fetch_data(session, packages_url, args.delay)
      if (not packages_data or "hydra:member" not in packages_data
              or not packages_data["hydra:member"]):
          break
      packages_to_process.extend(packages_data["hydra:member"])
      current_page += 1
  \<close>
\<close>

partial_function (option) listing_loop ::
  "session \<Rightarrow> args \<Rightarrow> string option \<Rightarrow> int \<Rightarrow> dict list \<Rightarrow> event list
   \<Rightarrow> (dict list \<times> event list) option" where
  "listing_loop session args last_played_at current_page packages_to_process trace =
     (if limit_reached args packages_to_process then Some (packages_to_process, trace)
      else
        (let fetched = fetch_data session (packages_url last_played_at current_page) (delay args);
             trace' = trace @ snd fetched
         in case fst fetched of
              None \<Rightarrow> Some (packages_to_process, trace')
            | Some packages_data \<Rightarrow>
                (case hydra_member packages_data of
                   None \<Rightarrow> Some (packages_to_process, trace')
                 | Some member \<Rightarrow>
                     if member = [] then Some (packages_to_process, trace')
                     else listing_loop session args last_played_at (current_page + 1)
                            (packages_to_process @ member) trace')))"

subsection \<open>Data frames\<close>

text \<open>
  A data frame is the list of its rows, a row a dictionary from column names to cells. A
  column that a row lacks reads as null (\<open>None\<close>, NaN and NaT alike are \<open>VNone\<close>),
  which is how \<open>pd.DataFrame\<close> and \<open>pd.concat\<close> fill it.

  The pandas functions on the played-at column are parameters:
  \<^item> \<open>to_datetime col i\<close>: cell \<open>i\<close> of \<open>pd.to_datetime(col, errors="coerce")\<close>,
    null where the cell does not parse;
  \<^item> \<open>isoformat\<close>: \<open>.isoformat()\<close> of the column's maximum;
  \<^item> \<open>order_key\<close>: the order in which \<open>max()\<close> and \<open>sort_values\<close> compare two
    non-null cells, as a key into a linear order.
  The cells of the column are taken to be comparable with each other; what pandas does
  with a column that mixes parsed timestamps and unparsed strings is not modelled.
\<close>

record 'k frames =
  to_datetime :: "val list \<Rightarrow> nat \<Rightarrow> val"
  isoformat :: "val \<Rightarrow> string"
  order_key :: "val \<Rightarrow> 'k"

definition column :: "dict list \<Rightarrow> string \<Rightarrow> val list" where
  "column df c = map (\<lambda>r. get r c) df"

definition has_column :: "dict list \<Rightarrow> string \<Rightarrow> bool" where
  "has_column df c = list_ex (\<lambda>r. map_of r c \<noteq> None) df"

text \<open>Assigning a cell of a row.\<close>

definition put :: "dict \<Rightarrow> string \<Rightarrow> val \<Rightarrow> dict" where
  "put r c v =
     (if c \<in> set (map fst r) then map (\<lambda>kv. if fst kv = c then (c, v) else kv) r
      else r @ [(c, v)])"

text \<open>\<open>df.dropna(subset=[c])\<close>\<close>

definition dropna :: "string \<Rightarrow> dict list \<Rightarrow> dict list" where
  "dropna c df = filter (\<lambda>r. get r c \<noteq> VNone) df"

text \<open>\<open>col.max()\<close>: the greatest non-null cell, null (NaT) when there is none.\<close>

definition col_max :: "('k::linorder) frames \<Rightarrow> val list \<Rightarrow> val" where
  "col_max P cells =
     (case filter (\<lambda>c. c \<noteq> VNone) cells of
        [] \<Rightarrow> VNone
      | c # cs \<Rightarrow> fold (\<lambda>x m. if order_key P m < order_key P x then x else m) cs c)"

text \<open>
  \<open>df.drop_duplicates(subset=[c], keep="last")\<close>: a row is dropped when a later row
  has the same cell in column \<open>c\<close>; the rows kept stay in order.
\<close>

fun drop_duplicates :: "string \<Rightarrow> dict list \<Rightarrow> dict list" where
  "drop_duplicates c [] = []"
| "drop_duplicates c (r # rs) =
     (if get r c \<in> set (column rs c) then drop_duplicates c rs else r # drop_duplicates c rs)"

text \<open>
  \<open>df.sort_values(by=c, ascending=False)\<close>: rows with a non-null cell by descending
  key, then the rows with a null cell. pandas sorts with its default \<open>quicksort\<close>
  kind, which promises no order among rows of equal key; the model keeps such rows in
  the order of the frame (pandas reverses, sorts ascending and reverses again).
\<close>

definition sort_values :: "('k::linorder) frames \<Rightarrow> string \<Rightarrow> dict list \<Rightarrow> dict list" where
  "sort_values P c df =
     rev (sort_key (\<lambda>r. order_key P (get r c)) (rev (filter (\<lambda>r. get r c \<noteq> VNone) df)))
       @ filter (\<lambda>r. get r c = VNone) df"

subsection \<open>Loading the prior table\<close>

text \<open>
  The output file is missing, or \<open>pd.read_parquet\<close> raises on it, or it holds a table.
  \<^verbatim>\<open>
  if output_file.exists():
      try:
          df_existing = pd.read_parquet(output_file)
          if "package_played_at" in df_existing.columns and not df_existing.empty:
              df_existing["package_played_at"] = pd.to_datetime(
                  df_existing["package_played_at"], errors="coerce")
              df_existing.dropna(subset=["package_played_at"], inplace=True)
              last_played_at = df_existing["package_played_at"].max().isoformat()
      except Exception as e:
          logging.error(...)
  \<close>
  The result is \<open>last_played_at\<close> and \<open>df_existing\<close> (which the source leaves unbound
  when no table was read, and then never reads).
\<close>

datatype prior = Missing | Unreadable | Table "dict list"

definition load_existing :: "('k::linorder) frames \<Rightarrow> prior \<Rightarrow> string option \<times> dict list" where
  "load_existing P prior =
     (case prior of
        Table df_existing \<Rightarrow>
          if has_column df_existing ''package_played_at'' \<and> df_existing \<noteq> [] then
            (let parsed = to_datetime P (column df_existing ''package_played_at'');
                 df1 = map (\<lambda>ir. put (snd ir) ''package_played_at'' (parsed (fst ir)))
                         (enumerate 0 df_existing);
                 df2 = dropna ''package_played_at'' df1
             in (Some (isoformat P (col_max P (column df2 ''package_played_at''))), df2))
          else (None, df_existing)
      | _ \<Rightarrow> (None, []))"

subsection \<open>The merge\<close>

text \<open>
  Lines 222-231:
  \<^verbatim>\<open>
  df_new = pd.DataFrame(all_questions_data)
  if last_played_at:
      df_final = pd.concat([df_existing, df_new], ignore_index=True)
  else:
      df_final = df_new
  df_final.drop_duplicates(subset=["question_id"], keep="last", inplace=True)
  df_final.sort_values(by="package_played_at", ascending=False, inplace=True)
  \<close>
\<close>

definition merge_step ::
  "('k::linorder) frames \<Rightarrow> string option \<Rightarrow> dict list \<Rightarrow> dict list \<Rightarrow> dict list" where
  "merge_step P last_played_at df_existing df_new =
     (let df_final = (if cursor_set last_played_at then df_existing @ df_new else df_new)
      in sort_values P ''package_played_at'' (drop_duplicates ''question_id'' df_final))"

subsection \<open>The detail phase and \<open>main\<close>\<close>

text \<open>
  One \<open>process_package\<close> task per collected package; \<open>as_completed\<close> yields the
  futures in the order in which they complete, which the code does not fix: it is the
  parameter \<open>completed\<close>, the indices of the tasks in that order (a permutation of the
  indices, in a run).
  \<^verbatim>\<open>
  for future in as_completed(future_to_package):
      questions = future.result()
      if questions:
          all_questions_data.extend(questions)
  \<close>
\<close>

definition detail_phase :: "lib \<Rightarrow> session \<Rightarrow> args \<Rightarrow> dict list \<Rightarrow> nat list \<Rightarrow> dict list" where
  "detail_phase L session args packages_to_process completed =
     (let results = map (\<lambda>pkg. process_package L pkg session args) packages_to_process
      in concat (map (\<lambda>i. results ! i) (filter (\<lambda>i. i < length results) completed)))"

text \<open>
  What \<open>main\<close> does to the output file: it returns before the write, or it hands
  \<open>df_final\<close> to \<open>to_parquet\<close> (whose failure is logged). The result is \<open>None\<close> when
  the listing loop never ends.
\<close>

datatype action = Untouched | ToParquet "dict list"

definition main_db ::
  "lib \<Rightarrow> ('k::linorder) frames \<Rightarrow> args \<Rightarrow> prior \<Rightarrow> session \<Rightarrow> nat list
   \<Rightarrow> (action \<times> event list) option" where
  "main_db L P args prior session completed =
     (let loaded = load_existing P prior;
          last_played_at = fst loaded;
          df_existing = snd loaded
      in case listing_loop session args last_played_at 1 [] [] of
           None \<Rightarrow> None
         | Some (packages_to_process, trace) \<Rightarrow>
             if packages_to_process = [] then Some (Untouched, trace)
             else
               (let all_questions_data =
                      detail_phase L session args packages_to_process completed
                in if all_questions_data = [] then Some (Untouched, trace)
                   else Some (ToParquet (merge_step P last_played_at df_existing all_questions_data),
                              trace)))"

section \<open>Notions used in the statements\<close>

text \<open>
  What the listing loop sees on a page: the member collection of the answer to the page's
  URL, empty when the fetch fails or the answer has no \<open>"hydra:member"\<close>.
\<close>

definition page_member :: "session \<Rightarrow> string option \<Rightarrow> int \<Rightarrow> dict list" where
  "page_member session last_played_at page =
     (case session (packages_url last_played_at page) of
        Inl e \<Rightarrow> []
      | Inr packages_data \<Rightarrow>
          (case hydra_member packages_data of None \<Rightarrow> [] | Some member \<Rightarrow> member))"

text \<open>The events of fetching one listing page.\<close>

definition page_events :: "args \<Rightarrow> string option \<Rightarrow> int \<Rightarrow> event list" where
  "page_events args last_played_at page =
     [Sleep (delay args), Get (packages_url last_played_at page)]"

text \<open>
  The merge with the order of the rows left open: \<open>sort_rows\<close> stands for
  \<open>sort_values\<close>. \<open>merge_step P\<close> is \<open>merge_with (sort_values P ''package_played_at'')\<close>.
\<close>

definition merge_with ::
  "(dict list \<Rightarrow> dict list) \<Rightarrow> string option \<Rightarrow> dict list \<Rightarrow> dict list \<Rightarrow> dict list" where
  "merge_with sort_rows last_played_at df_existing df_new =
     sort_rows (drop_duplicates ''question_id''
                 (if cursor_set last_played_at then df_existing @ df_new else df_new))"

section \<open>Example inputs\<close>

text \<open>
  Stand-ins for the libraries, used by the concrete runs below. \<open>str0\<close> and
  \<open>dumps0\<close> are exact on \<open>None\<close>, booleans and integers (\<open>str0\<close> also on strings),
  which is all the examples apply them to. A document is the text of its only script;
  the string literal of the examples has no escape, so \<open>literal_eval\<close> drops the
  quotes; \<open>json_loads\<close> knows the one text the examples decode. Played-at cells are
  ISO dates as strings: they parse to themselves and compare as strings.
\<close>

definition str0 :: "val \<Rightarrow> string" where
  "str0 v =
     (case v of
        VInt n \<Rightarrow> str_int n
      | VStr s \<Rightarrow> s
      | VNone \<Rightarrow> ''None''
      | VBool b \<Rightarrow> (if b then ''True'' else ''False'')
      | _ \<Rightarrow> [])"

definition dumps0 :: "val \<Rightarrow> string" where
  "dumps0 v =
     (case v of
        VNone \<Rightarrow> ''null''
      | VBool b \<Rightarrow> (if b then ''true'' else ''false'')
      | VInt n \<Rightarrow> str_int n
      | _ \<Rightarrow> [])"

definition lib0 :: lib where
  "lib0 =
     \<lparr>str = str0, dumps = dumps0, script_texts = (\<lambda>html. [html]),
      literal_eval = (\<lambda>s. Some (py_slice s 1 (- 1))),
      json_loads = (\<lambda>s. if s = ''[0,0,0,null]''
                          then Some (VList [VInt 0, VInt 0, VInt 0, VNone]) else None)\<rparr>"

definition frames0 :: "string frames" where
  "frames0 =
     \<lparr>to_datetime = (\<lambda>col i. case col ! i of VStr s \<Rightarrow> VStr s | _ \<Rightarrow> VNone),
      isoformat = (\<lambda>v. case v of VStr s \<Rightarrow> s | _ \<Rightarrow> ''NaT''),
      order_key = (\<lambda>v. case v of VStr s \<Rightarrow> s | _ \<Rightarrow> [])\<rparr>"

text \<open>The default command line of \<open>scraper_db.py\<close>.\<close>

definition args0 :: args where
  "args0 = \<lparr>output_path = ''chgk_questions.parquet'', limit = None, delay = 0.2, workers = 5\<rparr>"

text \<open>A stored row, and two rows fetched later: question 1 again, and question 2.\<close>

definition stored_row :: dict where
  "stored_row = [(''question_id'', VInt 1), (''package_played_at'', VStr ''2020-01-01'')]"

definition refetched_row :: dict where
  "refetched_row = [(''question_id'', VInt 1), (''package_played_at'', VStr ''2021-06-01'')]"

definition fresh_row :: dict where
  "fresh_row = [(''question_id'', VInt 2), (''package_played_at'', VStr ''2021-01-01'')]"

text \<open>Packages, a tour and questions as the API lists them.\<close>

definition package_2019 :: dict where
  "package_2019 = [(''id'', VInt 19), (''playedAt'', VStr ''2019-01-01'')]"

definition package_2021 :: dict where
  "package_2021 = [(''id'', VInt 21), (''playedAt'', VStr ''2021-01-01'')]"

definition package_5 :: dict where
  "package_5 = [(''id'', VInt 5), (''playedAt'', VStr ''2021-01-01'')]"

definition tour_7 :: dict where
  "tour_7 = [(''id'', VInt 7)]"

definition question_3 :: dict where
  "question_3 = [(''id'', VInt 3), (''question'', VStr ''Q''), (''answer'', VStr ''A'')]"

definition question_without_id :: dict where
  "question_without_id = [(''question'', VStr ''Q''), (''answer'', VStr ''A'')]"

text \<open>
  A listing source that answers the first page of a resumed run (cursor
  \<open>2020-01-01\<close>) with a package played in 2019 and one played in 2021, and every other
  request with an empty collection.
\<close>

definition session_resume :: session where
  "session_resume url =
     (if url = ''http://www.db.chgk.info/packages?page=1&order[playedAt]=desc&playedAt[before]=2020-01-01''
      then Inr \<lparr>hydra_member = Some [package_2019, package_2021]\<rparr>
      else Inr \<lparr>hydra_member = Some []\<rparr>)"

text \<open>A listing source with one package on each of two pages and an empty third page.\<close>

definition session_three :: session where
  "session_three url =
     (if url = ''http://www.db.chgk.info/packages?page=1&order[playedAt]=desc''
      then Inr \<lparr>hydra_member = Some [package_2021]\<rparr>
      else if url = ''http://www.db.chgk.info/packages?page=2&order[playedAt]=desc''
      then Inr \<lparr>hydra_member = Some [package_2019]\<rparr>
      else Inr \<lparr>hydra_member = Some []\<rparr>)"

text \<open>An API with one package of one tour of one question, the question a parameter.\<close>

definition session_tree :: "dict \<Rightarrow> session" where
  "session_tree question url =
     (if url = ''http://www.db.chgk.info/packages?page=1&order[playedAt]=desc''
      then Inr \<lparr>hydra_member = Some [package_5]\<rparr>
      else if url = ''http://www.db.chgk.info/packages/5/tours''
      then Inr \<lparr>hydra_member = Some [tour_7]\<rparr>
      else if url = ''http://www.db.chgk.info/tours/7/questions''
      then Inr \<lparr>hydra_member = Some [question]\<rparr>
      else Inr \<lparr>hydra_member = Some []\<rparr>)"

text \<open>An API that cannot be reached: every request raises a \<open>ConnectionError\<close>.\<close>

definition session_down :: session where
  "session_down url = Inl (Request ConnectionError)"

text \<open>
  Pipeline B. A page whose only script is
  \<^verbatim>\<open>self.__next_f.push([1,"5:[0,0,0,null]\n"])\<close>: its data decodes to
  \<open>[0, 0, 0, None]\<close>, so the element at index 3 is not the expected dictionary. The site
  serves that page on every request; a second network fails twice with a
  \<open>ConnectionError\<close> and serves it from the third request on, a third never connects.
\<close>

definition drifted_page :: string where
  "drifted_page =
     ''self.__next_f.push([1,'' @ [CHR 0x22] @ ''5:[0,0,0,null]'' @ [CHR 0x5C] @ ''n''
       @ [CHR 0x22] @ ''])''"

text \<open>A page whose script holds no string literal: its data does not decode.\<close>

definition undecodable_page :: string where
  "undecodable_page = ''window.x = 1''"

definition net_drifted :: net where
  "net_drifted n url = Inr drifted_page"

definition net_flaky :: net where
  "net_flaky n url = (if n < 2 then Inl ConnectionError else Inr drifted_page)"

definition net_down :: net where
  "net_down n url = Inl ConnectionError"

definition w0 :: world where
  "w0 = \<lparr>sent = [], slept = []\<rparr>"

section \<open>Properties\<close>

subsection \<open>\<open>safe_get\<close> on lists\<close>

text \<open>
  C10. On a list \<open>lst\<close>, \<open>safe_get lst i d\<close> never raises. It returns \<open>lst[i]\<close>
  (counted from the front for \<open>0 \<le> i < len\<close>, from the end for \<open>-len \<le> i < 0\<close>) when the
  index is in range and \<open>d\<close> otherwise; on the empty list it returns \<open>d\<close> for every
  index.
\<close>

theorem safe_get_total:
  "(\<forall>e. safe_get (VList xs) i d \<noteq> Inl e)
   \<and> (0 \<le> i \<and> i < int (length xs) \<longrightarrow> safe_get (VList xs) i d = Inr (xs ! nat i))
   \<and> (- int (length xs) \<le> i \<and> i < 0 \<longrightarrow>
        safe_get (VList xs) i d = Inr (xs ! nat (int (length xs) + i)))
   \<and> (\<not> (- int (length xs) \<le> i \<and> i < int (length xs)) \<longrightarrow> safe_get (VList xs) i d = Inr d)
   \<and> safe_get (VList []) i d = Inr d"
  by (auto simp: safe_get_def seq_index_def)

theorem safe_get_total_witness:
  "safe_get (VList [VInt 10, VInt 20, VInt 30]) 1 VNone = Inr (VInt 20)
   \<and> safe_get (VList [VInt 10, VInt 20, VInt 30]) (- 1) VNone = Inr (VInt 30)
   \<and> safe_get (VList [VInt 10, VInt 20, VInt 30]) 3 VNone = Inr VNone
   \<and> safe_get (VList [VInt 10, VInt 20, VInt 30]) (- 4) VNone = Inr VNone"
  using safe_get_total [of "[VInt 10, VInt 20, VInt 30]" 1 VNone]
    safe_get_total [of "[VInt 10, VInt 20, VInt 30]" "- 1" VNone]
    safe_get_total [of "[VInt 10, VInt 20, VInt 30]" 3 VNone]
    safe_get_total [of "[VInt 10, VInt 20, VInt 30]" "- 4" VNone]
  by simp

subsection \<open>Retry and back-off\<close>

lemma range_RETRIES: "[0..<RETRIES] = [0, 1, 2]"
  by (simp add: RETRIES_def upt_rec)

lemma retry_success:
  assumes "k < RETRIES"
    and "\<forall>j<k. net (length (sent w) + j) url = Inl ConnectionError"
    and "net (length (sent w) + k) url = Inr text"
  shows "retry_loop net url [0..<RETRIES] w =
         (Response text, w\<lparr>sent := sent w @ replicate (k + 1) url,
                            slept := slept w @ map (\<lambda>a. 2 ^ (a + 1)) [0..<k]\<rparr>)"
proof -
  have "k = 0 \<or> k = 1 \<or> k = 2"
    using assms(1) unfolding RETRIES_def by arith
  then consider "k = 0" | "k = 1" | "k = 2"
    by blast
  then show ?thesis
  proof cases
    case 1
    with assms show ?thesis
      unfolding range_RETRIES by (simp add: session_get_def sleep_def)
  next
    case 2
    with assms(2)[rule_format, of 0] assms(3) show ?thesis
      unfolding range_RETRIES by (simp add: session_get_def sleep_def RETRIES_def)
  next
    case 3
    with assms(2)[rule_format, of 0] assms(2)[rule_format, of 1] assms(3) show ?thesis
      unfolding range_RETRIES
      by (simp add: session_get_def sleep_def RETRIES_def upt_rec numeral_3_eq_3)
  qed
qed

lemma retry_give_up:
  assumes "\<forall>j<RETRIES. net (length (sent w) + j) url = Inl ConnectionError"
  shows "retry_loop net url [0..<RETRIES] w =
         (GaveUp, w\<lparr>sent := sent w @ replicate RETRIES url, slept := slept w @ [2, 4]\<rparr>)"
proof -
  have "net (length (sent w)) url = Inl ConnectionError"
    "net (Suc (length (sent w))) url = Inl ConnectionError"
    "net (Suc (Suc (length (sent w)))) url = Inl ConnectionError"
    using assms[rule_format, of 0] assms[rule_format, of 1] assms[rule_format, of 2]
    by (simp_all add: RETRIES_def)
  then show ?thesis
    unfolding range_RETRIES
    by (simp add: session_get_def sleep_def RETRIES_def numeral_3_eq_3)
qed

lemma snd_fetch_data: "snd (fetch_data session url d) = [Sleep d, Get url]"
  by (simp add: fetch_data_def split: sum.splits fetch_error.splits)

lemma fetch_data_error: "session url = Inl e \<Longrightarrow> fst (fetch_data session url d) = None"
  by (simp add: fetch_data_def split: fetch_error.splits)

lemma gave_up_tournament_ids:
  "fst (retry_loop net (URL_BASE @ ''/?page='' @ str_int page_num) [0..<RETRIES] w) = GaveUp
   \<Longrightarrow> fst (fetch_tournament_ids_from_page L net page_num w) = Inr None"
  by (cases "retry_loop net (URL_BASE @ ''/?page='' @ str_int page_num) [0..<RETRIES] w")
     (simp add: fetch_tournament_ids_from_page_def)

lemma gave_up_questions:
  "fst (retry_loop net (URL_BASE @ ''/pack/'' @ str L pack_id) [0..<RETRIES] w) = GaveUp
   \<Longrightarrow> fst (fetch_questions_from_pack L net pack_id w) = Inr None"
  by (cases "retry_loop net (URL_BASE @ ''/pack/'' @ str L pack_id) [0..<RETRIES] w")
     (simp add: fetch_questions_from_pack_def)

text \<open>
  C4, as the code has it. In Pipeline B a request that fails with a \<open>ConnectionError\<close>
  is tried again, \<open>RETRIES = 3\<close> attempts in all, after a sleep of \<open>2 ^ (attempt + 1)\<close>
  seconds (2, then 4): when the first \<open>k < 3\<close> attempts fail so and the next succeeds,
  the loop yields that response, having sent \<open>k + 1\<close> requests and slept
  \<open>2, ..., 2 ^ k\<close> seconds; when all three fail, it gives up after sleeping 2 and 4
  seconds, both fetchers return \<open>None\<close>, and \<open>main\<close> goes on with the next page or
  pack. In
  Pipeline A \<open>fetch_data\<close> sleeps the fixed delay and sends one request; on any error it
  returns \<open>None\<close>: there is no retry and no back-off.
\<close>

theorem fetch_retry_policy:
  "(k < RETRIES \<and> (\<forall>j<k. net (length (sent w) + j) url = Inl ConnectionError)
      \<and> net (length (sent w) + k) url = Inr text
    \<longrightarrow> retry_loop net url [0..<RETRIES] w =
          (Response text, w\<lparr>sent := sent w @ replicate (k + 1) url,
                             slept := slept w @ map (\<lambda>a. 2 ^ (a + 1)) [0..<k]\<rparr>))
   \<and> ((\<forall>j<RETRIES. net (length (sent w) + j) url = Inl ConnectionError)
    \<longrightarrow> retry_loop net url [0..<RETRIES] w =
          (GaveUp, w\<lparr>sent := sent w @ replicate RETRIES url, slept := slept w @ [2, 4]\<rparr>))
   \<and> (fst (retry_loop net (URL_BASE @ ''/?page='' @ str_int page_num) [0..<RETRIES] w) = GaveUp
    \<longrightarrow> fst (fetch_tournament_ids_from_page L net page_num w) = Inr None)
   \<and> (fst (retry_loop net (URL_BASE @ ''/pack/'' @ str L pack_id) [0..<RETRIES] w) = GaveUp
    \<longrightarrow> fst (fetch_questions_from_pack L net pack_id w) = Inr None)
   \<and> (fetch_tournament_ids_from_page L net page_num w = (Inr None, w')
    \<longrightarrow> collect_ids L net (page_num # pages) ids w = collect_ids L net pages ids w')
   \<and> (fetch_questions_from_pack L net pack_id w = (Inr None, w')
    \<longrightarrow> collect_packs L net (pack_id # pack_ids) dfs w = collect_packs L net pack_ids dfs w')
   \<and> snd (fetch_data session url' d) = [Sleep d, Get url']
   \<and> ((\<exists>e. session url' = Inl e) \<longrightarrow> fst (fetch_data session url' d) = None)"
proof (intro conjI impI)
  assume "k < RETRIES \<and> (\<forall>j<k. net (length (sent w) + j) url = Inl ConnectionError)
      \<and> net (length (sent w) + k) url = Inr text"
  then show "retry_loop net url [0..<RETRIES] w =
          (Response text, w\<lparr>sent := sent w @ replicate (k + 1) url,
                             slept := slept w @ map (\<lambda>a. 2 ^ (a + 1)) [0..<k]\<rparr>)"
    using retry_success by blast
next
  assume "\<forall>j<RETRIES. net (length (sent w) + j) url = Inl ConnectionError"
  then show "retry_loop net url [0..<RETRIES] w =
          (GaveUp, w\<lparr>sent := sent w @ replicate RETRIES url, slept := slept w @ [2, 4]\<rparr>)"
    by (rule retry_give_up)
next
  assume "fst (retry_loop net (URL_BASE @ ''/?page='' @ str_int page_num) [0..<RETRIES] w) = GaveUp"
  then show "fst (fetch_tournament_ids_from_page L net page_num w) = Inr None"
    by (rule gave_up_tournament_ids)
next
  assume "fst (retry_loop net (URL_BASE @ ''/pack/'' @ str L pack_id) [0..<RETRIES] w) = GaveUp"
  then show "fst (fetch_questions_from_pack L net pack_id w) = Inr None"
    by (rule gave_up_questions)
next
  assume "fetch_tournament_ids_from_page L net page_num w = (Inr None, w')"
  then show "collect_ids L net (page_num # pages) ids w = collect_ids L net pages ids w'"
    by simp
next
  assume "fetch_questions_from_pack L net pack_id w = (Inr None, w')"
  then show "collect_packs L net (pack_id # pack_ids) dfs w = collect_packs L net pack_ids dfs w'"
    by simp
next
  show "snd (fetch_data session url' d) = [Sleep d, Get url']"
    by (rule snd_fetch_data)
next
  assume "\<exists>e. session url' = Inl e"
  then show "fst (fetch_data session url' d) = None"
    using fetch_data_error by blast
qed

text \<open>
  Two connection errors, then the page: the loop returns the page after three requests
  and sleeps of 2 and 4 seconds. A network that never connects: the fetcher returns
  \<open>None\<close> after three requests.
\<close>

theorem fetch_retry_policy_witness:
  "retry_loop net_flaky ''https://gotquestions.online/?page=1'' [0..<RETRIES] w0 =
     (Response drifted_page,
      \<lparr>sent = [''https://gotquestions.online/?page=1'', ''https://gotquestions.online/?page=1'',
               ''https://gotquestions.online/?page=1''],
       slept = [2, 4]\<rparr>)
   \<and> retry_loop net_down ''https://gotquestions.online/?page=1'' [0..<RETRIES] w0 =
     (GaveUp,
      \<lparr>sent = [''https://gotquestions.online/?page=1'', ''https://gotquestions.online/?page=1'',
               ''https://gotquestions.online/?page=1''],
       slept = [2, 4]\<rparr>)
   \<and> fst (fetch_tournament_ids_from_page lib0 net_down 1 w0) = Inr None"
proof -
  let ?url = "''https://gotquestions.online/?page=1''"
  have url: "URL_BASE @ ''/?page='' @ str_int 1 = ?url"
    by (simp add: URL_BASE_def str_int_def str_nat.simps)
  have flaky: "(2::nat) < RETRIES \<and> (\<forall>j<2. net_flaky (length (sent w0) + j) ?url = Inl ConnectionError)
      \<and> net_flaky (length (sent w0) + 2) ?url = Inr drifted_page"
    by (simp add: RETRIES_def net_flaky_def w0_def)
  have down: "\<forall>j<RETRIES. net_down (length (sent w0) + j) ?url = Inl ConnectionError"
    by (simp add: net_down_def)
  note policy = fetch_retry_policy[of _ _ w0 ?url _ 1 lib0]
  have a: "retry_loop net_flaky ?url [0..<RETRIES] w0 =
          (Response drifted_page, w0\<lparr>sent := sent w0 @ replicate (2 + 1) ?url,
                             slept := slept w0 @ map (\<lambda>a. 2 ^ (a + 1)) [0..<2]\<rparr>)"
    using policy[of 2 net_flaky drifted_page] flaky by blast
  have b: "retry_loop net_down ?url [0..<RETRIES] w0 =
          (GaveUp, w0\<lparr>sent := sent w0 @ replicate RETRIES ?url, slept := slept w0 @ [2, 4]\<rparr>)"
    using policy[of _ net_down] down by blast
  have "fst (retry_loop net_down (URL_BASE @ ''/?page='' @ str_int 1) [0..<RETRIES] w0) = GaveUp"
    by (simp only: url b fst_conv)
  then have c: "fst (fetch_tournament_ids_from_page lib0 net_down 1 w0) = Inr None"
    using policy[of _ net_down] by blast
  from a b c show ?thesis
    by (simp add: w0_def RETRIES_def numeral_3_eq_3 upt_rec)
qed

text \<open>
  Against C4 as stated: in Pipeline A a fetch that fails with a connection error is not
  retried. \<open>fetch_data\<close> returns \<open>None\<close> after its one request, and the listing loop
  ends there.
\<close>

theorem fetch_data_no_retry:
  "fetch_data session_down ''http://www.db.chgk.info/packages?page=1&order[playedAt]=desc'' 0.2 =
     (None, [Sleep 0.2, Get ''http://www.db.chgk.info/packages?page=1&order[playedAt]=desc''])
   \<and> listing_loop session_down args0 None 1 [] [] =
     Some ([], [Sleep 0.2, Get ''http://www.db.chgk.info/packages?page=1&order[playedAt]=desc''])"
  by (subst listing_loop.simps)
     (simp add: fetch_data_def session_down_def limit_reached_def args0_def packages_url_def
        BASE_URL_def cursor_set_def str_int_def str_nat.simps)

subsection \<open>Schema drift in Pipeline B\<close>

lemma extract_drifted_page:
  "extract_json_from_script lib0 (script_texts lib0 drifted_page) =
   Some (VList [VInt 0, VInt 0, VInt 0, VNone])"
proof -
  have "script_texts lib0 drifted_page = [drifted_page]"
    by (simp add: lib0_def)
  then show ?thesis
    by (simp add: extract_json_from_script_def lib0_def drifted_page_def py_slice_def lstrip_def
        rstrip_def Let_def)
qed

lemma tournament_ids_drifted_page: "tournament_ids lib0 drifted_page = Inl TypeError"
  by (simp add: tournament_ids_def extract_drifted_page and_then_def seq_index_def)

lemma fetch_drifted_page:
  "fetch_tournament_ids_from_page lib0 net_drifted 1 w0 =
   (Inl TypeError, \<lparr>sent = [''https://gotquestions.online/?page=1''], slept = []\<rparr>)"
  unfolding fetch_tournament_ids_from_page_def range_RETRIES
  by (simp add: net_drifted_def w0_def session_get_def except_KeyError_IndexError_def
      tournament_ids_drifted_page URL_BASE_def str_int_def str_nat.simps)

text \<open>
  C9, where the code departs from it. The page \<open>drifted_page\<close> decodes to
  \<open>[0, 0, 0, None]\<close>: the fixed path \<open>[3]["children"]\<close> meets \<open>None\<close>, which raises a
  TypeError. The handler of \<open>fetch_tournament_ids_from_page\<close> catches KeyError and
  IndexError only, so the exception leaves the function, and \<open>main\<close>, which calls it
  with no handler, ends with it on the first page instead of going on to the second.
\<close>

theorem schema_drift_type_error:
  "extract_json_from_script lib0 (script_texts lib0 drifted_page) =
     Some (VList [VInt 0, VInt 0, VInt 0, VNone])
   \<and> fetch_tournament_ids_from_page lib0 net_drifted 1 w0 =
     (Inl TypeError, \<lparr>sent = [''https://gotquestions.online/?page=1''], slept = []\<rparr>)
   \<and> main_gq lib0 net_drifted 2 w0 =
     (Inl TypeError, \<lparr>sent = [''https://gotquestions.online/?page=1''], slept = []\<rparr>)"
proof -
  have "[1..2] = [1, 2::int]"
    by (simp add: upto_rec1)
  then have "main_gq lib0 net_drifted 2 w0 =
     (Inl TypeError, \<lparr>sent = [''https://gotquestions.online/?page=1''], slept = []\<rparr>)"
    by (simp add: main_gq_def fetch_drifted_page)
  then show ?thesis
    by (simp add: extract_drifted_page fetch_drifted_page)
qed

subsection \<open>Data frames\<close>

lemma map_of_replace:
  "map_of (map (\<lambda>kv. if fst kv = c then (c, v) else kv) r) c' =
   (if c' = c then (if c \<in> set (map fst r) then Some v else None) else map_of r c')"
  by (induction r) (auto split: if_splits)

lemma get_put: "get (put r c v) c' = (if c' = c then v else get r c')"
proof (cases "c \<in> set (map fst r)")
  case True
  then show ?thesis
    unfolding get_def put_def by (simp only: map_of_replace if_True) simp
next
  case False
  then have "map_of r c = None"
    by (simp add: map_of_eq_None_iff)
  with False show ?thesis
    by (auto simp: get_def put_def map_add_def map_of_append split: option.splits)
qed

lemma column_drop_duplicates: "column (drop_duplicates c df) c = remdups (column df c)"
  by (induction df) (auto simp: column_def)

lemma set_drop_duplicates: "set (drop_duplicates c df) \<subseteq> set df"
  by (induction df) auto


lemma drop_duplicates_append:
  "drop_duplicates c (X @ N) =
   filter (\<lambda>r. get r c \<notin> set (column N c)) (drop_duplicates c X) @ drop_duplicates c N"
proof (induction X)
  case Nil
  then show ?case by simp
next
  case (Cons a X)
  have "set (column (drop_duplicates c X) c) = set (column X c)"
    by (simp add: column_drop_duplicates)
  then show ?case using Cons
    by (auto simp: column_def)
qed

lemma drop_duplicates_distinct: "distinct (column df c) \<Longrightarrow> drop_duplicates c df = df"
  by (induction df) (auto simp: column_def)

lemma mset_sort_values: "mset (sort_values P c df) = mset df"
proof -
  have "mset (filter (\<lambda>r. get r c \<noteq> VNone) df) + mset (filter (\<lambda>r. get r c = VNone) df) = mset df"
    by (induction df) auto
  then show ?thesis by (simp add: sort_values_def)
qed

lemma set_sort_values: "set (sort_values P c df) = set df"
  using mset_sort_values[of P c df] by (metis set_mset_mset)








subsection \<open>The merge keeps one row per question id, the last one\<close>



subsection \<open>The merge is idempotent\<close>



subsection \<open>The listing loop\<close>

lemma limit_reached_mono:
  "\<not> limit_reached args (xs @ ys) \<Longrightarrow> \<not> limit_reached args xs"
  by (auto simp: limit_reached_def split: option.splits)

lemma listing_step_limit:
  "limit_reached args acc \<Longrightarrow> listing_loop session args c p acc tr = Some (acc, tr)"
  by (subst listing_loop.simps) simp

lemma listing_step_stop:
  assumes "\<not> limit_reached args acc" and "page_member session c p = []"
  shows "listing_loop session args c p acc tr = Some (acc, tr @ page_events args c p)"
  using assms
  by (subst listing_loop.simps)
     (auto simp: page_member_def page_events_def fetch_data_def Let_def
           split: sum.splits fetch_error.splits option.splits)

lemma listing_step_go:
  assumes "\<not> limit_reached args acc" and "page_member session c p \<noteq> []"
  shows "listing_loop session args c p acc tr =
         listing_loop session args c (p + 1) (acc @ page_member session c p)
           (tr @ page_events args c p)"
  using assms
  by (subst listing_loop.simps)
     (auto simp: page_member_def page_events_def fetch_data_def Let_def
           split: sum.splits fetch_error.splits option.splits)

lemma listing_from:
  assumes "p \<le> N"
    and "\<forall>k. p \<le> k \<and> k < N \<longrightarrow> page_member session c (int k) \<noteq> []"
    and "page_member session c (int N) = []"
    and "\<not> limit_reached args (acc @ concat (map (\<lambda>k. page_member session c (int k)) [p..<N]))"
  shows "listing_loop session args c (int p) acc tr =
         Some (acc @ concat (map (\<lambda>k. page_member session c (int k)) [p..<N]),
               tr @ concat (map (\<lambda>k. page_events args c (int k)) [p..<Suc N]))"
  using assms
proof (induction "N - p" arbitrary: p acc tr)
  case 0
  then have "p = N" by simp
  with 0 show ?case
    by (simp add: listing_step_stop)
next
  case (Suc n)
  then have lt: "p < N" by simp
  then have ne: "page_member session c (int p) \<noteq> []"
    using Suc.prems(2) by simp
  have split: "[p..<N] = p # [Suc p..<N]" "[p..<Suc N] = p # [Suc p..<Suc N]"
    using lt by (simp_all add: upt_rec)
  have nl: "\<not> limit_reached args acc"
    using Suc.prems(4) by (rule limit_reached_mono)
  have IH: "listing_loop session args c (int (Suc p)) (acc @ page_member session c (int p))
          (tr @ page_events args c (int p)) =
        Some ((acc @ page_member session c (int p)) @
                concat (map (\<lambda>k. page_member session c (int k)) [Suc p..<N]),
              (tr @ page_events args c (int p)) @
                concat (map (\<lambda>k. page_events args c (int k)) [Suc p..<Suc N]))"
  proof (rule Suc.hyps(1))
    show "n = N - Suc p" using Suc.hyps(2) by simp
    show "Suc p \<le> N" using lt by simp
    show "\<forall>k. Suc p \<le> k \<and> k < N \<longrightarrow> page_member session c (int k) \<noteq> []"
      using Suc.prems(2) by simp
    show "page_member session c (int N) = []" by (rule Suc.prems(3))
    show "\<not> limit_reached args ((acc @ page_member session c (int p)) @
             concat (map (\<lambda>k. page_member session c (int k)) [Suc p..<N]))"
      using Suc.prems(4) by (simp add: split(1))
  qed
  have next_page: "int p + 1 = int (Suc p)" by simp
  have "listing_loop session args c (int p) acc tr =
        listing_loop session args c (int p + 1) (acc @ page_member session c (int p))
          (tr @ page_events args c (int p))"
    using nl ne by (rule listing_step_go)
  also have "\<dots> = Some ((acc @ page_member session c (int p)) @
                concat (map (\<lambda>k. page_member session c (int k)) [Suc p..<N]),
              (tr @ page_events args c (int p)) @
                concat (map (\<lambda>k. page_events args c (int k)) [Suc p..<Suc N]))"
    by (simp only: next_page IH)
  finally show ?case
    by (simp only: split list.map concat.simps append_assoc)
qed

lemma str_int_digit:
  "str_int 1 = ''1''" "str_int 2 = ''2''" "str_int 3 = ''3''"
  by (simp_all add: str_int_def str_nat.simps)

lemma url_no_cursor:
  "packages_url None 1 = ''http://www.db.chgk.info/packages?page=1&order[playedAt]=desc''"
  "packages_url None 2 = ''http://www.db.chgk.info/packages?page=2&order[playedAt]=desc''"
  "packages_url None 3 = ''http://www.db.chgk.info/packages?page=3&order[playedAt]=desc''"
  by (simp_all add: packages_url_def BASE_URL_def cursor_set_def str_int_digit)

lemma url_cursor:
  "packages_url (Some ''2020-01-01'') 1 =
   ''http://www.db.chgk.info/packages?page=1&order[playedAt]=desc&playedAt[before]=2020-01-01''"
  "packages_url (Some ''2020-01-01'') 2 =
   ''http://www.db.chgk.info/packages?page=2&order[playedAt]=desc&playedAt[before]=2020-01-01''"
  by (simp_all add: packages_url_def BASE_URL_def cursor_set_def str_int_digit)

lemma args0_no_limit: "\<not> limit_reached args0 acc"
  by (simp add: limit_reached_def args0_def)

lemma load_stored_row:
  "load_existing frames0 (Table [stored_row]) = (Some ''2020-01-01'', [stored_row])"
  by (simp add: load_existing_def has_column_def stored_row_def column_def get_def put_def
      dropna_def col_max_def frames0_def Let_def)

lemma page_member_resume:
  "page_member session_resume (Some ''2020-01-01'') 1 = [package_2019, package_2021]"
  "page_member session_resume (Some ''2020-01-01'') 2 = []"
  by (simp_all add: page_member_def url_cursor session_resume_def)

lemma page_member_three:
  "page_member session_three None 1 = [package_2021]"
  "page_member session_three None 2 = [package_2019]"
  "page_member session_three None 3 = []"
  by (simp_all add: page_member_def url_no_cursor session_three_def)

subsection \<open>The listing stops at the first empty page\<close>

text \<open>
  C5, as the code has it. Let page \<open>N \<ge> 1\<close> be the first page whose member collection
  is empty (or whose fetch fails), and let the limit, if one is set, not be reached by
  the packages of the pages before it. Then the loop ends: it has requested the pages
  \<open>1, ..., N\<close> in this order, each once and nothing after page \<open>N\<close>, and it has collected
  the members of the \<open>N - 1\<close> pages before page \<open>N\<close>.
\<close>

theorem listing_stops_at_first_empty_page:
  assumes "1 \<le> N"
    and "\<forall>k. 1 \<le> k \<and> k < N \<longrightarrow> page_member session last_played_at (int k) \<noteq> []"
    and "page_member session last_played_at (int N) = []"
    and "\<not> limit_reached args
            (concat (map (\<lambda>k. page_member session last_played_at (int k)) [1..<N]))"
  shows "listing_loop session args last_played_at 1 [] [] =
         Some (concat (map (\<lambda>k. page_member session last_played_at (int k)) [1..<N]),
               concat (map (\<lambda>k. page_events args last_played_at (int k)) [1..<Suc N]))"
proof -
  have "listing_loop session args last_played_at (int 1) [] [] =
        Some ([] @ concat (map (\<lambda>k. page_member session last_played_at (int k)) [1..<N]),
              [] @ concat (map (\<lambda>k. page_events args last_played_at (int k)) [1..<Suc N]))"
    using assms by (intro listing_from) simp_all
  then show ?thesis by simp
qed

text \<open>
  Two pages of one package each and an empty third page, no limit: three requests, two
  packages.
\<close>

theorem listing_stops_at_first_empty_page_witness:
  "listing_loop session_three args0 None 1 [] [] =
     Some ([package_2021, package_2019],
       [Sleep 0.2, Get ''http://www.db.chgk.info/packages?page=1&order[playedAt]=desc'',
        Sleep 0.2, Get ''http://www.db.chgk.info/packages?page=2&order[playedAt]=desc'',
        Sleep 0.2, Get ''http://www.db.chgk.info/packages?page=3&order[playedAt]=desc''])"
proof -
  have ne: "\<forall>k. 1 \<le> k \<and> k < 3 \<longrightarrow> page_member session_three None (int k) \<noteq> []"
  proof (intro allI impI)
    fix k :: nat
    assume "1 \<le> k \<and> k < 3"
    then have "k = 1 \<or> k = 2" by arith
    then show "page_member session_three None (int k) \<noteq> []"
      by (auto simp: page_member_three)
  qed
  have "listing_loop session_three args0 None 1 [] [] =
        Some (concat (map (\<lambda>k. page_member session_three None (int k)) [1..<3]),
              concat (map (\<lambda>k. page_events args0 None (int k)) [1..<Suc 3]))"
    by (rule listing_stops_at_first_empty_page)
       (use ne page_member_three args0_no_limit in simp_all)
  then show ?thesis
    by (simp add: upt_rec page_member_three page_events_def url_no_cursor args0_def)
qed

text \<open>
  Against C5 as stated: the same source, whose first empty page is page 3, under
  \<open>--limit 1\<close>. The loop ends on the limit after one request; it never sees the empty
  page.
\<close>

theorem listing_limit_before_empty_page:
  "page_member session_three None 1 \<noteq> [] \<and> page_member session_three None 2 \<noteq> []
   \<and> page_member session_three None 3 = []
   \<and> listing_loop session_three (args0\<lparr>limit := Some 1\<rparr>) None 1 [] [] =
     Some ([package_2021],
           [Sleep 0.2, Get ''http://www.db.chgk.info/packages?page=1&order[playedAt]=desc''])"
proof -
  let ?args = "args0\<lparr>limit := Some 1\<rparr>"
  have nl: "\<not> limit_reached ?args []"
    by (simp add: limit_reached_def args0_def)
  have "listing_loop session_three ?args None 1 [] [] =
        listing_loop session_three ?args None (1 + 1)
          ([] @ page_member session_three None 1) ([] @ page_events ?args None 1)"
    by (rule listing_step_go[OF nl]) (simp add: page_member_three)
  also have "\<dots> = Some ([] @ page_member session_three None 1, [] @ page_events ?args None 1)"
    by (rule listing_step_limit) (simp add: limit_reached_def page_member_three)
  finally show ?thesis
    by (simp add: page_member_three page_events_def url_no_cursor args0_def)
qed

subsection \<open>Resuming from the cursor\<close>

text \<open>
  C1, where the code departs from it. The prior table holds one row, played at
  \<open>2020-01-01\<close>, so the cursor is \<open>2020-01-01\<close>. Every listing request of the resumed
  run carries \<open>playedAt[before]=2020-01-01\<close>: it asks for the packages played before the
  cursor, not after it. The loop filters nothing itself: when the answer lists a package
  played in 2019 and one played in 2021, both are scheduled for the detail phase.
\<close>

theorem resume_requests_before_cursor:
  "load_existing frames0 (Table [stored_row]) = (Some ''2020-01-01'', [stored_row])
   \<and> listing_loop session_resume args0 (fst (load_existing frames0 (Table [stored_row]))) 1 [] [] =
     Some ([package_2019, package_2021],
       [Sleep 0.2,
        Get ''http://www.db.chgk.info/packages?page=1&order[playedAt]=desc&playedAt[before]=2020-01-01'',
        Sleep 0.2,
        Get ''http://www.db.chgk.info/packages?page=2&order[playedAt]=desc&playedAt[before]=2020-01-01''])"
proof -
  have "listing_loop session_resume args0 (Some ''2020-01-01'') 1 [] [] =
        listing_loop session_resume args0 (Some ''2020-01-01'') (1 + 1)
          ([] @ page_member session_resume (Some ''2020-01-01'') 1)
          ([] @ page_events args0 (Some ''2020-01-01'') 1)"
    by (rule listing_step_go[OF args0_no_limit]) (simp add: page_member_resume)
  also have "\<dots> = Some ([] @ page_member session_resume (Some ''2020-01-01'') 1,
       ([] @ page_events args0 (Some ''2020-01-01'') 1) @ page_events args0 (Some ''2020-01-01'') 2)"
    using listing_step_stop[OF args0_no_limit page_member_resume(2)] by simp
  finally show ?thesis
    by (simp add: load_stored_row page_member_resume page_events_def url_cursor args0_def)
qed

subsection \<open>The limit\<close>

lemma listing_resume_limit_1:
  "listing_loop session_resume (args0\<lparr>limit := Some 1\<rparr>) (Some ''2020-01-01'') 1 [] [] =
     Some ([package_2019, package_2021],
       [Sleep 0.2,
        Get ''http://www.db.chgk.info/packages?page=1&order[playedAt]=desc&playedAt[before]=2020-01-01''])"
proof -
  let ?args = "args0\<lparr>limit := Some 1\<rparr>"
  have nl: "\<not> limit_reached ?args []"
    by (simp add: limit_reached_def args0_def)
  have "listing_loop session_resume ?args (Some ''2020-01-01'') 1 [] [] =
        listing_loop session_resume ?args (Some ''2020-01-01'') (1 + 1)
          ([] @ page_member session_resume (Some ''2020-01-01'') 1)
          ([] @ page_events ?args (Some ''2020-01-01'') 1)"
    by (rule listing_step_go[OF nl]) (simp add: page_member_resume)
  also have "\<dots> = Some ([] @ page_member session_resume (Some ''2020-01-01'') 1,
       [] @ page_events ?args (Some ''2020-01-01'') 1)"
    by (rule listing_step_limit) (simp add: limit_reached_def page_member_resume)
  finally show ?thesis
    by (simp add: page_member_resume page_events_def url_cursor args0_def)
qed

lemma listing_respects_limit_aux:
  assumes "listing_loop session args c p acc tr = Some y"
  shows "fst y = acc \<or> (\<exists>before page. fst y = before @ page \<and> \<not> limit_reached args before)"
proof (rule listing_loop.raw_induct[where P = "\<lambda>session args c p acc tr y.
         fst y = acc \<or> (\<exists>before page. fst y = before @ page \<and> \<not> limit_reached args before)",
       OF _ assms], goal_cases)
  case (1 loop session args c p acc tr y)
  show ?case
  proof (cases "limit_reached args acc")
    case True
    with 1(2) have "y = (acc, tr)" by simp
    then show ?thesis by simp
  next
    case False
    show ?thesis
    proof (cases "page_member session c p = []")
      case True
      with False 1(2) have "fst y = acc"
        by (auto simp: page_member_def fetch_data_def Let_def
            split: sum.splits fetch_error.splits option.splits if_splits)
      then show ?thesis by simp
    next
      case ne: False
      with False 1(2) have "loop session args c (p + 1) (acc @ page_member session c p)
           (tr @ snd (fetch_data session (packages_url c p) (delay args))) = Some y"
        by (auto simp: page_member_def fetch_data_def Let_def
            split: sum.splits fetch_error.splits option.splits if_splits)
      from 1(1)[OF this] False show ?thesis by blast
    qed
  qed
qed

text \<open>
  C7, where the code departs from it. The limit is tested before a page is fetched and
  the whole page is then added, so under \<open>--limit 1\<close> a first page of two packages
  leaves two packages to process.
\<close>

theorem limit_overshoot:
  "limit (args0\<lparr>limit := Some 1\<rparr>) = Some 1
   \<and> listing_loop session_resume (args0\<lparr>limit := Some 1\<rparr>) (Some ''2020-01-01'') 1 [] [] =
     Some ([package_2019, package_2021],
       [Sleep 0.2,
        Get ''http://www.db.chgk.info/packages?page=1&order[playedAt]=desc&playedAt[before]=2020-01-01''])
   \<and> int (length [package_2019, package_2021]) > 1"
  using listing_resume_limit_1 by simp

text \<open>
  What the limit does bound: when the loop returns under a limit \<open>l\<close>, the packages
  collected before the last page that was added number fewer than \<open>l\<close>. The total can
  exceed \<open>l\<close> by the size of that page less one.
\<close>

theorem listing_respects_limit:
  assumes "listing_loop session args last_played_at 1 [] [] = Some (packages_to_process, trace)"
    and "limit args = Some l"
  shows "packages_to_process = [] \<or>
         (\<exists>before page. packages_to_process = before @ page \<and> int (length before) < l)"
  using listing_respects_limit_aux[OF assms(1)] assms(2)
  by (auto simp: limit_reached_def)

theorem listing_respects_limit_witness:
  "[package_2019, package_2021] = [] \<or>
   (\<exists>before page. [package_2019, package_2021] = before @ page \<and> int (length before) < 1)"
proof -
  have "limit (args0\<lparr>limit := Some 1\<rparr>) = Some 1"
    by simp
  with listing_resume_limit_1 show ?thesis
    by (rule listing_respects_limit)
qed

subsection \<open>Where the rows of the written table come from\<close>

lemma question_id_flat_record:
  "get (flat_record L package_info tour_info tour_id question_info) ''question_id'' =
   get question_info ''id''"
  by (simp add: flat_record_def get_def)

lemma process_tour_rows:
  assumes "r \<in> set (process_tour L tour_info package_info session args)"
  shows "\<exists>url p m q. session url = Inr p \<and> hydra_member p = Some m \<and> q \<in> set m
           \<and> get r ''question_id'' = get q ''id''"
proof -
  let ?url = "BASE_URL @ ''/tours/'' @ str L (get tour_info ''id'') @ ''/questions''"
  from assms have t: "truthy (get tour_info ''id'')"
    by (auto simp: process_tour_def Let_def split: if_splits)
  show ?thesis
  proof (cases "session ?url")
    case (Inl e)
    with assms t show ?thesis
      by (simp add: process_tour_def fetch_data_def Let_def split: fetch_error.splits)
  next
    case (Inr p)
    show ?thesis
    proof (cases "hydra_member p")
      case None
      with assms t Inr show ?thesis
        by (simp add: process_tour_def fetch_data_def Let_def)
    next
      case (Some m)
      with assms t Inr obtain q where "q \<in> set m"
        "r = flat_record L package_info tour_info (get tour_info ''id'') q"
        by (auto simp: process_tour_def fetch_data_def Let_def)
      with Inr Some show ?thesis
        using question_id_flat_record by blast
    qed
  qed
qed

lemma process_package_rows:
  assumes "r \<in> set (process_package L package_info session args)"
  shows "\<exists>url p m q. session url = Inr p \<and> hydra_member p = Some m \<and> q \<in> set m
           \<and> get r ''question_id'' = get q ''id''"
proof -
  from assms obtain tour_info where "r \<in> set (process_tour L tour_info package_info session args)"
    by (auto simp: process_package_def Let_def split: if_splits option.splits)
  then show ?thesis by (rule process_tour_rows)
qed

lemma detail_phase_rows:
  assumes "r \<in> set (detail_phase L session args packages completed)"
  shows "\<exists>package_info. r \<in> set (process_package L package_info session args)"
  using assms by (auto simp: detail_phase_def Let_def)

lemma load_existing_rows:
  assumes "r \<in> set (snd (load_existing P prior))"
  shows "\<exists>df r0. prior = Table df \<and> r0 \<in> set df \<and> get r ''question_id'' = get r0 ''question_id''"
proof (cases prior)
  case (Table df)
  show ?thesis
  proof (cases "has_column df ''package_played_at'' \<and> df \<noteq> []")
    case True
    with assms Table obtain ir where "ir \<in> set (enumerate 0 df)"
      and "r = put (snd ir) ''package_played_at''
                 (to_datetime P (column df ''package_played_at'') (fst ir))"
      by (auto simp: load_existing_def Let_def dropna_def)
    note ir = this
    have "snd ir \<in> set df"
      using ir(1) by (metis enumerate_eq_zip in_set_zipE prod.collapse)
    moreover have "get r ''question_id'' = get (snd ir) ''question_id''"
      using ir(2) by (simp add: get_put)
    ultimately show ?thesis
      using Table by blast
  next
    case False
    with assms Table show ?thesis
      by (auto simp: load_existing_def)
  qed
qed (use assms in \<open>simp_all add: load_existing_def\<close>)

lemma merge_step_rows:
  "set (merge_step P c E N) \<subseteq> set E \<union> set N"
proof -
  have "set (drop_duplicates ''question_id'' (E @ N)) \<subseteq> set E \<union> set N"
    using set_drop_duplicates[of "''question_id''" "E @ N"] by simp
  moreover have "set (drop_duplicates ''question_id'' N) \<subseteq> set E \<union> set N"
    using set_drop_duplicates[of "''question_id''" N] by blast
  ultimately show ?thesis
    by (simp add: merge_step_def Let_def set_sort_values)
qed

lemma listing_tree:
  "listing_loop (session_tree q) args0 None 1 [] [] =
   Some ([package_5],
         [Sleep 0.2, Get ''http://www.db.chgk.info/packages?page=1&order[playedAt]=desc'',
          Sleep 0.2, Get ''http://www.db.chgk.info/packages?page=2&order[playedAt]=desc''])"
proof -
  have pm1: "page_member (session_tree q) None 1 = [package_5]"
    by (simp add: page_member_def url_no_cursor session_tree_def)
  have pm2: "page_member (session_tree q) None 2 = []"
    by (simp add: page_member_def url_no_cursor session_tree_def)
  have "listing_loop (session_tree q) args0 None 1 [] [] =
        listing_loop (session_tree q) args0 None (1 + 1)
          ([] @ page_member (session_tree q) None 1) ([] @ page_events args0 None 1)"
    by (rule listing_step_go[OF args0_no_limit]) (simp add: pm1)
  also have "\<dots> = Some ([] @ page_member (session_tree q) None 1,
       ([] @ page_events args0 None 1) @ page_events args0 None 2)"
    using listing_step_stop[OF args0_no_limit pm2] by simp
  finally show ?thesis
    by (simp add: pm1 page_events_def url_no_cursor args0_def)
qed

lemma process_package_tree:
  "process_package lib0 package_5 (session_tree q) args0 =
   [flat_record lib0 package_5 tour_7 (VInt 7) q]"
proof -
  have digits: "str_int 5 = ''5''" "str_int 7 = ''7''"
    by (simp_all add: str_int_def str_nat.simps)
  have "process_tour lib0 tour_7 package_5 (session_tree q) args0 =
        [flat_record lib0 package_5 tour_7 (VInt 7) q]"
    by (simp add: process_tour_def tour_7_def[of] get_def Let_def lib0_def str0_def BASE_URL_def
        fetch_data_def session_tree_def digits)
  then show ?thesis
    by (simp add: process_package_def package_5_def[of] get_def Let_def lib0_def str0_def
        BASE_URL_def fetch_data_def session_tree_def digits)
qed

lemma main_tree:
  "main_db lib0 frames0 args0 Missing (session_tree q) [0] =
   Some (ToParquet [flat_record lib0 package_5 tour_7 (VInt 7) q],
         [Sleep 0.2, Get ''http://www.db.chgk.info/packages?page=1&order[playedAt]=desc'',
          Sleep 0.2, Get ''http://www.db.chgk.info/packages?page=2&order[playedAt]=desc''])"
proof -
  have "load_existing frames0 Missing = (None, [])"
    by (simp add: load_existing_def)
  moreover have "detail_phase lib0 (session_tree q) args0 [package_5] [0] =
      [flat_record lib0 package_5 tour_7 (VInt 7) q]"
    by (simp add: detail_phase_def process_package_tree)
  moreover have "merge_step frames0 None [] [flat_record lib0 package_5 tour_7 (VInt 7) q] =
      [flat_record lib0 package_5 tour_7 (VInt 7) q]"
    by (simp add: merge_step_def cursor_set_def sort_values_def column_def)
  ultimately show ?thesis
    by (simp add: main_db_def listing_tree)
qed

subsection \<open>Question ids of the written table\<close>

text \<open>
  C6, as the code has it. Nothing between the API and \<open>to_parquet\<close> tests a question
  id: the id of a flat record is \<open>question_info.get("id")\<close>, and the merge keeps rows as
  they are. So the written table has no null question id provided the inputs have none:
  if every row of the prior table has a non-null question id and every item the API
  serves has a non-null \<open>id\<close>, then every row handed to \<open>to_parquet\<close> has a non-null
  question id.
\<close>

theorem persisted_question_ids:
  assumes "main_db L P args prior session completed = Some (ToParquet table, trace)"
    and "\<forall>df. prior = Table df \<longrightarrow> (\<forall>r \<in> set df. get r ''question_id'' \<noteq> VNone)"
    and "\<forall>url p m q. session url = Inr p \<longrightarrow> hydra_member p = Some m \<longrightarrow> q \<in> set m
           \<longrightarrow> get q ''id'' \<noteq> VNone"
  shows "\<forall>r \<in> set table. get r ''question_id'' \<noteq> VNone"
proof
  fix r
  assume r: "r \<in> set table"
  from assms(1) obtain packages where
    "table = merge_step P (fst (load_existing P prior)) (snd (load_existing P prior))
               (detail_phase L session args packages completed)"
    by (auto simp: main_db_def Let_def split: option.splits if_splits)
  with r merge_step_rows
  consider "r \<in> set (snd (load_existing P prior))"
    | "r \<in> set (detail_phase L session args packages completed)"
    by blast
  then show "get r ''question_id'' \<noteq> VNone"
  proof cases
    case 1
    then show ?thesis using load_existing_rows assms(2) by metis
  next
    case 2
    then obtain package_info where "r \<in> set (process_package L package_info session args)"
      using detail_phase_rows by blast
    then obtain url p m q where "session url = Inr p" "hydra_member p = Some m" "q \<in> set m"
      "get r ''question_id'' = get q ''id''"
      using process_package_rows by blast
    with assms(3) show ?thesis by metis
  qed
qed

text \<open>A first run on an API whose only question has the id 3.\<close>

theorem persisted_question_ids_witness:
  "main_db lib0 frames0 args0 Missing (session_tree question_3) [0] =
   Some (ToParquet [flat_record lib0 package_5 tour_7 (VInt 7) question_3],
         [Sleep 0.2, Get ''http://www.db.chgk.info/packages?page=1&order[playedAt]=desc'',
          Sleep 0.2, Get ''http://www.db.chgk.info/packages?page=2&order[playedAt]=desc''])
   \<and> get (flat_record lib0 package_5 tour_7 (VInt 7) question_3) ''question_id'' \<noteq> VNone"
proof -
  have ids: "\<forall>url p m q. session_tree question_3 url = Inr p \<longrightarrow> hydra_member p = Some m
           \<longrightarrow> q \<in> set m \<longrightarrow> get q ''id'' \<noteq> VNone"
    by (auto simp: session_tree_def package_5_def tour_7_def question_3_def get_def
             split: if_splits)
  have prior: "\<forall>df. Missing = Table df \<longrightarrow> (\<forall>r \<in> set df. get r ''question_id'' \<noteq> VNone)"
    by simp
  from persisted_question_ids[OF main_tree prior ids] show ?thesis
    by (simp add: main_tree)
qed

text \<open>
  Against C6 as stated: the same run on an API whose only question has no \<open>id\<close>. The
  table handed to \<open>to_parquet\<close> has one row, and its question id is null.
\<close>

theorem null_question_id_written:
  "main_db lib0 frames0 args0 Missing (session_tree question_without_id) [0] =
   Some (ToParquet [flat_record lib0 package_5 tour_7 (VInt 7) question_without_id],
         [Sleep 0.2, Get ''http://www.db.chgk.info/packages?page=1&order[playedAt]=desc'',
          Sleep 0.2, Get ''http://www.db.chgk.info/packages?page=2&order[playedAt]=desc''])
   \<and> get (flat_record lib0 package_5 tour_7 (VInt 7) question_without_id) ''question_id'' = VNone"
  by (simp add: main_tree question_id_flat_record) (simp add: question_without_id_def get_def)

subsection \<open>No new records, no write\<close>

text \<open>
  C8. Whenever the listing loop returns and the detail phase yields no record (in
  particular when no package was listed), \<open>main\<close> returns before the merge and the
  write: the output file, missing, unreadable or a table, is left as it was.
\<close>

theorem no_records_no_write:
  assumes "listing_loop session args (fst (load_existing P prior)) 1 [] [] = Some (packages, trace)"
    and "detail_phase L session args packages completed = []"
  shows "main_db L P args prior session completed = Some (Untouched, trace)"
  using assms by (simp add: main_db_def Let_def)

text \<open>A resumed run against an API that cannot be reached: one request, no write.\<close>

theorem no_records_no_write_witness:
  "main_db lib0 frames0 args0 (Table [stored_row]) session_down [] =
   Some (Untouched,
         [Sleep 0.2,
          Get ''http://www.db.chgk.info/packages?page=1&order[playedAt]=desc&playedAt[before]=2020-01-01''])"
proof -
  have "page_member session_down (Some ''2020-01-01'') 1 = []"
    by (simp add: page_member_def session_down_def)
  from listing_step_stop[OF args0_no_limit this, of "[]"]
  have "listing_loop session_down args0 (fst (load_existing frames0 (Table [stored_row]))) 1 [] [] =
        Some ([], [Sleep 0.2,
          Get ''http://www.db.chgk.info/packages?page=1&order[playedAt]=desc&playedAt[before]=2020-01-01''])"
    by (simp add: load_stored_row page_events_def url_cursor args0_def)
  moreover have "detail_phase lib0 session_down args0 [] [] = []"
    by (simp add: detail_phase_def)
  ultimately show ?thesis
    by (rule no_records_no_write)
qed

subsection \<open>The rows of the merge do not depend on how ties are ordered\<close>

text \<open>
  Whatever order \<open>sort_values\<close> gives the rows (any function that permutes a frame), a
  second merge of the same new records leaves the rows of the table as they are: the
  same rows, each as often.
\<close>

theorem merge_rows_idempotent:
  assumes perm: "\<forall>df. mset (sort_rows df) = mset df"
    and c': "cursor_set c'"
  shows "mset (merge_with sort_rows c' (merge_with sort_rows c E N) N) =
         mset (merge_with sort_rows c E N)"
proof -
  let ?dd = "drop_duplicates ''question_id''"
  let ?new = "\<lambda>r. get r ''question_id'' \<notin> set (column N ''question_id'')"
  define F0 where "F0 = (if cursor_set c then E else [])"
  define A where "A = filter ?new (?dd F0)"
  define B where "B = ?dd N"
  have m1: "merge_with sort_rows c E N = sort_rows (A @ B)"
    by (simp add: merge_with_def F0_def A_def B_def drop_duplicates_append)
  have "mset (column (sort_rows (A @ B)) ''question_id'') = mset (column (A @ B) ''question_id'')"
    unfolding column_def mset_map using perm by simp
  moreover have "distinct (column (A @ B) ''question_id'')"
    using column_drop_duplicates[of "''question_id''" "F0 @ N"]
    by (simp add: drop_duplicates_append A_def B_def)
  ultimately have "distinct (column (sort_rows (A @ B)) ''question_id'')"
    using mset_eq_imp_distinct_iff by blast
  then have dd: "?dd (sort_rows (A @ B)) = sort_rows (A @ B)"
    by (rule drop_duplicates_distinct)
  have "set B \<subseteq> set N"
    unfolding B_def by (rule set_drop_duplicates)
  then have fB: "filter ?new B = []"
    by (auto simp: filter_empty_conv column_def)
  have fA: "filter ?new A = A"
    by (simp add: A_def)
  have "mset (filter ?new (sort_rows (A @ B))) = filter_mset ?new (mset (sort_rows (A @ B)))"
    by simp
  also have "\<dots> = filter_mset ?new (mset (A @ B))"
    using perm by simp
  also have "\<dots> = mset (filter ?new A) + mset (filter ?new B)"
    by simp
  also have "\<dots> = mset A"
    by (simp only: fA fB) simp
  finally have keep: "mset (filter ?new (sort_rows (A @ B))) = mset A" .
  have "merge_with sort_rows c' (sort_rows (A @ B)) N =
        sort_rows (filter ?new (?dd (sort_rows (A @ B))) @ B)"
    using c' by (simp add: merge_with_def drop_duplicates_append B_def)
  then have "mset (merge_with sort_rows c' (sort_rows (A @ B)) N) =
        mset (filter ?new (sort_rows (A @ B)) @ B)"
    by (simp only: dd perm[rule_format])
  also have "\<dots> = mset A + mset B"
    by (simp only: mset_append keep)
  also have "\<dots> = mset (sort_rows (A @ B))"
    by (simp only: perm[rule_format] mset_append)
  finally show ?thesis by (simp only: m1)
qed

theorem merge_rows_idempotent_witness:
  "mset (merge_with rev (Some ''2021-06-01'')
           (merge_with rev (Some ''2020-01-01'') [stored_row] [refetched_row, fresh_row])
           [refetched_row, fresh_row]) =
   mset (merge_with rev (Some ''2020-01-01'') [stored_row] [refetched_row, fresh_row])"
proof -
  have "\<forall>df :: dict list. mset (rev df) = mset df"
    by simp
  moreover have "cursor_set (Some ''2021-06-01'')"
    by (simp add: cursor_set_def)
  ultimately show ?thesis
    by (rule merge_rows_idempotent)
qed

subsection \<open>What the handlers of Pipeline B do catch\<close>

lemma handler_catches:
  "except_KeyError_IndexError r \<noteq> Inl KeyError" "except_KeyError_IndexError r \<noteq> Inl IndexError"
  by (auto simp: except_KeyError_IndexError_def split: sum.splits)

text \<open>
  Neither fetcher ever raises a KeyError or an IndexError, and a page whose data does not
  unescape or decode (\<open>extract_json_from_script\<close> returns \<open>None\<close>) yields \<open>None\<close> in
  both.
\<close>

theorem drift_and_decode_failures_skipped:
  "fst (fetch_tournament_ids_from_page L net page_num w) \<noteq> Inl KeyError
   \<and> fst (fetch_tournament_ids_from_page L net page_num w) \<noteq> Inl IndexError
   \<and> fst (fetch_questions_from_pack L net pack_id w) \<noteq> Inl KeyError
   \<and> fst (fetch_questions_from_pack L net pack_id w) \<noteq> Inl IndexError
   \<and> (extract_json_from_script L (script_texts L text) = None
      \<longrightarrow> tournament_ids L text = Inr None \<and> pack_questions L text = Inr None)"
proof -
  have a: "fst (fetch_tournament_ids_from_page L net page_num w) \<noteq> Inl e"
    if "e = KeyError \<or> e = IndexError" for e
    using that
    by (cases "retry_loop net (URL_BASE @ ''/?page='' @ str_int page_num) [0..<RETRIES] w")
       (auto simp: fetch_tournament_ids_from_page_def handler_catches split: fetched.splits)
  have b: "fst (fetch_questions_from_pack L net pack_id w) \<noteq> Inl e"
    if "e = KeyError \<or> e = IndexError" for e
    using that
    by (cases "retry_loop net (URL_BASE @ ''/pack/'' @ str L pack_id) [0..<RETRIES] w")
       (auto simp: fetch_questions_from_pack_def handler_catches split: fetched.splits)
  show ?thesis
    using a b by (simp add: tournament_ids_def pack_questions_def)
qed

theorem drift_and_decode_failures_skipped_witness:
  "extract_json_from_script lib0 (script_texts lib0 undecodable_page) = None
   \<and> tournament_ids lib0 undecodable_page = Inr None
   \<and> pack_questions lib0 undecodable_page = Inr None"
proof -
  have "script_texts lib0 undecodable_page = [undecodable_page]"
    by (simp add: lib0_def)
  then have "extract_json_from_script lib0 (script_texts lib0 undecodable_page) = None"
    by (simp add: extract_json_from_script_def lib0_def undecodable_page_def py_slice_def
        lstrip_def rstrip_def Let_def)
  with drift_and_decode_failures_skipped[of lib0 _ _ _ _ undecodable_page] show ?thesis
    by blast
qed

end
